theory Spec2Isabelle
  imports Main "HOL-Library.Word"
begin

section \<open>The host object model\<close>

text \<open>
  \<^verbatim>\<open>cast.h\<close> works on the objects of the host interpreter through \<^verbatim>\<open>PyObject *\<close>.
  A \<^verbatim>\<open>PyObject *\<close> is a \<open>pyref option\<close> (\<open>None\<close> is \<^verbatim>\<open>nullptr\<close>), a native pointer
  is an \<open>addr option\<close>. Every address holds some object: the allocator of the host hands
  out the address \<open>next_obj\<close> and never reuses one, and an object whose reference
  count has fallen to 0 stays where it is: its deallocation is the host's business and is
  not modelled, so the references a dead list or tuple holds to its items are not given
  back.
\<close>

type_synonym pyref = nat
type_synonym addr = nat
type_synonym type_id = string

datatype pytype =
  PyLong_Type | PyUnicode_Type | PyList_Type | PyTuple_Type | PyNone_Type | PyHeap_Type nat

datatype pyexc =
  PyExc_TypeError | PyExc_OverflowError | PyExc_UnicodeEncodeError | PyExc_IndexError
  | PyExc_SystemError

text \<open>
  Modelled from the spec: \<^verbatim>\<open>instance<type>\<close> is declared in \<^verbatim>\<open>pybind/common.h\<close>, which is
  not among the sources. The spec's Instance has the raw pointer to the native value, the
  \<open>owned\<close> flag and the optional back-reference to a \<open>parent\<close> dynamic object.
\<close>

record instance_type =
  "value" :: "addr option"
  owned :: bool
  parent :: "pyref option"

datatype pyval =
    PyNone
  | PyLong int
  | PyUnicode "nat list"
  | PyList "pyref option list"
  | PyTuple "pyref option list"
  | Instance instance_type

record pyobject =
  ob_refcnt :: nat
  ob_type :: pytype
  ob_val :: pyval

text \<open>
  Modelled from the spec: \<^verbatim>\<open>return_value_policy\<close> and \<^verbatim>\<open>cast_error\<close> are declared in
  \<^verbatim>\<open>pybind/common.h\<close>. The spec's Ownership Policy is one of five; \<^verbatim>\<open>cast_error\<close> is the raised
  error condition carrying a descriptive message.
\<close>

datatype return_value_policy =
  automatic | copy | reference | reference_internal | take_ownership

datatype cast_error = cast_error string

text \<open>
  The mutable state: the host's object heap and error indicator, the native heap
  (\<open>mem\<close>, with \<open>brk\<close> the next address \<^verbatim>\<open>new\<close> returns), and the Instance Registry
  \<^verbatim>\<open>get_internals().registered_instances\<close>, keyed by pointer value. \<open>calls\<close> records
  every invocation \<^verbatim>\<open>PyObject_CallObject\<close> makes, callable and argument tuple.
\<close>

record 'a state =
  objs :: "pyref \<Rightarrow> pyobject"
  next_obj :: pyref
  error_indicator :: "(pyexc \<times> string) option"
  tp_mro :: "pytype \<Rightarrow> pytype list"
  registered_instances :: "addr option \<rightharpoonup> pyref"
  mem :: "addr \<Rightarrow> 'a"
  brk :: addr
  calls :: "(pyref \<times> pyref) list"

text \<open>
  Modelled from the spec: \<^verbatim>\<open>type_info\<close> is declared in \<^verbatim>\<open>pybind/common.h\<close>. The spec's Type
  Descriptor has a handle to the dynamic type, the ordered sequence of implicit-conversion
  functions (each: dynamic value to new dynamic value, or null on failure) and the
  holder-initialization hook. Conversions and hook are function pointers into code
  outside \<^verbatim>\<open>cast.h\<close>: they may change the state in any way. The Type Registry
  \<^verbatim>\<open>get_internals().registered_types\<close> is read-only from the caster's perspective, so it is
  an argument \<open>registered_types\<close> of the functions below and not part of the state.
\<close>

record 'a type_info =
  type :: pytype
  implicit_conversions :: "(pyref \<Rightarrow> pytype \<Rightarrow> 'a state \<Rightarrow> pyref option \<times> 'a state) list"
  init_holder :: "pyref \<Rightarrow> 'a state \<Rightarrow> 'a state"

text \<open>
  The template parameter \<^verbatim>\<open>type\<close> of the generic caster: \<^verbatim>\<open>type_id<type>()\<close> and, when
  \<^verbatim>\<open>std::is_copy_constructible<type>\<close> holds, the copy constructor.
\<close>

record 'a native_type =
  type_id :: type_id
  copy_constructor :: "('a \<Rightarrow> 'a) option"

subsection \<open>Host primitives\<close>

definition Py_None :: pyref where
  "Py_None = 0"

definition Py_INCREF :: "pyref \<Rightarrow> 'a state \<Rightarrow> 'a state" where
  "Py_INCREF r s = s\<lparr>objs := (objs s)(r := (objs s r)\<lparr>ob_refcnt := ob_refcnt (objs s r) + 1\<rparr>)\<rparr>"

definition Py_DECREF :: "pyref \<Rightarrow> 'a state \<Rightarrow> 'a state" where
  "Py_DECREF r s = s\<lparr>objs := (objs s)(r := (objs s r)\<lparr>ob_refcnt := ob_refcnt (objs s r) - 1\<rparr>)\<rparr>"

definition Py_XINCREF :: "pyref option \<Rightarrow> 'a state \<Rightarrow> 'a state" where
  "Py_XINCREF r s = (case r of None \<Rightarrow> s | Some r' \<Rightarrow> Py_INCREF r' s)"

definition Py_XDECREF :: "pyref option \<Rightarrow> 'a state \<Rightarrow> 'a state" where
  "Py_XDECREF r s = (case r of None \<Rightarrow> s | Some r' \<Rightarrow> Py_DECREF r' s)"

definition Py_TYPE :: "'a state \<Rightarrow> pyref \<Rightarrow> pytype" where
  "Py_TYPE s r = ob_type (objs s r)"

definition PyType_IsSubtype :: "'a state \<Rightarrow> pytype \<Rightarrow> pytype \<Rightarrow> bool" where
  "PyType_IsSubtype s a b = (a = b \<or> b \<in> set (tp_mro s a))"

definition PyErr_SetString :: "pyexc \<Rightarrow> string \<Rightarrow> 'a state \<Rightarrow> 'a state" where
  "PyErr_SetString exc msg s = s\<lparr>error_indicator := Some (exc, msg)\<rparr>"

definition PyErr_Occurred :: "'a state \<Rightarrow> bool" where
  "PyErr_Occurred s = (error_indicator s \<noteq> None)"

definition PyErr_Clear :: "'a state \<Rightarrow> 'a state" where
  "PyErr_Clear s = s\<lparr>error_indicator := None\<rparr>"

definition alloc :: "pytype \<Rightarrow> pyval \<Rightarrow> 'a state \<Rightarrow> pyref \<times> 'a state" where
  "alloc tp v s =
     (next_obj s,
      s\<lparr>objs := (objs s)(next_obj s := \<lparr>ob_refcnt = 1, ob_type = tp, ob_val = v\<rparr>),
        next_obj := next_obj s + 1\<rparr>)"

text \<open>\<^verbatim>\<open>PyType_GenericAlloc(type, 0)\<close>: a new zeroed object of the type, with one reference.\<close>

definition PyType_GenericAlloc :: "pytype \<Rightarrow> 'a state \<Rightarrow> pyref \<times> 'a state" where
  "PyType_GenericAlloc tp s =
     alloc tp (Instance \<lparr>value = None, owned = False, parent = None\<rparr>) s"

text \<open>
  \<^verbatim>\<open>(instance_type *) src\<close>: the object read as an instance. Reading an object that is no
  instance this way is undefined in C++; the model reads zeroed fields.
\<close>

definition as_instance :: "pyobject \<Rightarrow> instance_type" where
  "as_instance ob =
     (case ob_val ob of Instance i \<Rightarrow> i
      | _ \<Rightarrow> \<lparr>value = None, owned = False, parent = None\<rparr>)"

definition set_instance :: "pyref \<Rightarrow> instance_type \<Rightarrow> 'a state \<Rightarrow> 'a state" where
  "set_instance r i s = s\<lparr>objs := (objs s)(r := (objs s r)\<lparr>ob_val := Instance i\<rparr>)\<rparr>"

text \<open>\<^verbatim>\<open>new T(v)\<close>: the next native address, holding \<open>v\<close>.\<close>

definition new_T :: "'a \<Rightarrow> 'a state \<Rightarrow> addr \<times> 'a state" where
  "new_T v s = (brk s, s\<lparr>mem := (mem s)(brk s := v), brk := brk s + 1\<rparr>)"

text \<open>
  The host's integers. \<^verbatim>\<open>long\<close> has 64 bits (LP64). \<^verbatim>\<open>PyLong_AsLong\<close> answers -1 with the
  error indicator set for a null pointer, for an object that is no integer and for an
  integer outside the range of \<^verbatim>\<open>long\<close>. \<^verbatim>\<open>PyLong_FromLong\<close> makes a new integer object (the
  host's sharing of small integers is left out).
\<close>

definition PyLong_AsLong :: "pyref option \<Rightarrow> 'a state \<Rightarrow> 64 word \<times> 'a state" where
  "PyLong_AsLong src s =
     (case src of
        None \<Rightarrow> (- 1, PyErr_SetString PyExc_SystemError ''bad argument to internal function'' s)
      | Some r \<Rightarrow>
          (case ob_val (objs s r) of
             PyLong v \<Rightarrow>
               if - (2 ^ 63) \<le> v \<and> v < 2 ^ 63 then (word_of_int v, s)
               else (- 1, PyErr_SetString PyExc_OverflowError
                            ''Python int too large to convert to C long'' s)
           | _ \<Rightarrow> (- 1, PyErr_SetString PyExc_TypeError ''an integer is required'' s)))"

definition PyLong_FromLong :: "64 word \<Rightarrow> 'a state \<Rightarrow> pyref option \<times> 'a state" where
  "PyLong_FromLong v s = (case alloc PyLong_Type (PyLong (sint v)) s of (r, s1) \<Rightarrow> (Some r, s1))"

text \<open>
  The host's strings are lists of code points. \<^verbatim>\<open>PyUnicode_AsUTF8\<close> answers the UTF-8
  encoding, a C string (the bytes before the terminating NUL are modelled), or null with
  the error indicator set when the object is no string or a code point has no encoding
  (a surrogate).
\<close>

definition utf8_encode_cp :: "nat \<Rightarrow> 8 word list option" where
  "utf8_encode_cp c =
     (if c < 0x80 then Some [of_nat c]
      else if c < 0x800 then Some [of_nat (0xC0 + c div 64), of_nat (0x80 + c mod 64)]
      else if 0xD800 \<le> c \<and> c < 0xE000 then None
      else if c < 0x10000 then
        Some [of_nat (0xE0 + c div 4096), of_nat (0x80 + c div 64 mod 64), of_nat (0x80 + c mod 64)]
      else if c < 0x110000 then
        Some [of_nat (0xF0 + c div 262144), of_nat (0x80 + c div 4096 mod 64),
              of_nat (0x80 + c div 64 mod 64), of_nat (0x80 + c mod 64)]
      else None)"

fun utf8_encode :: "nat list \<Rightarrow> 8 word list option" where
  "utf8_encode [] = Some []"
| "utf8_encode (c # cs) =
     (case utf8_encode_cp c of
        None \<Rightarrow> None
      | Some bs \<Rightarrow> (case utf8_encode cs of None \<Rightarrow> None | Some rest \<Rightarrow> Some (bs @ rest)))"

definition PyUnicode_AsUTF8 :: "pyref option \<Rightarrow> 'a state \<Rightarrow> 8 word list option \<times> 'a state" where
  "PyUnicode_AsUTF8 src s =
     (case src of
        None \<Rightarrow> (None, PyErr_SetString PyExc_TypeError ''bad argument type for built-in operation'' s)
      | Some r \<Rightarrow>
          (case ob_val (objs s r) of
             PyUnicode cps \<Rightarrow>
               (case utf8_encode cps of
                  Some bs \<Rightarrow> (Some bs, s)
                | None \<Rightarrow> (None, PyErr_SetString PyExc_UnicodeEncodeError
                                    ''surrogates not allowed'' s))
           | _ \<Rightarrow> (None, PyErr_SetString PyExc_TypeError
                             ''bad argument type for built-in operation'' s)))"

text \<open>\<^verbatim>\<open>PyUnicode_DecodeLatin1\<close>: every byte is the code point of its value.\<close>

definition PyUnicode_DecodeLatin1 :: "8 word list \<Rightarrow> 'a state \<Rightarrow> pyref option \<times> 'a state" where
  "PyUnicode_DecodeLatin1 bs s =
     (case alloc PyUnicode_Type (PyUnicode (map unat bs)) s of (r, s1) \<Rightarrow> (Some r, s1))"

text \<open>
  Lists. A new list has null items; \<^verbatim>\<open>PyList_SetItem\<close> steals the reference to the item.
  \<^verbatim>\<open>PyList_Check\<close>, \<^verbatim>\<open>PyList_GET_SIZE\<close> and \<^verbatim>\<open>PyTuple_Check\<close> read through their argument: on
  a null pointer the C code has no defined behaviour. The model answers as for an object
  of another type there, and every statement below about a container caster is about a
  source that is not null.
\<close>

definition PyList_Check :: "'a state \<Rightarrow> pyref option \<Rightarrow> bool" where
  "PyList_Check s src =
     (case src of None \<Rightarrow> False
      | Some r \<Rightarrow> (case ob_val (objs s r) of PyList items \<Rightarrow> True | _ \<Rightarrow> False))"

definition PyList_GET_SIZE :: "'a state \<Rightarrow> pyref option \<Rightarrow> nat" where
  "PyList_GET_SIZE s src =
     (case src of None \<Rightarrow> 0
      | Some r \<Rightarrow> (case ob_val (objs s r) of PyList items \<Rightarrow> length items | _ \<Rightarrow> 0))"

definition PyList_GetItem :: "pyref option \<Rightarrow> nat \<Rightarrow> 'a state \<Rightarrow> pyref option \<times> 'a state" where
  "PyList_GetItem src i s =
     (case src of
        None \<Rightarrow> (None, PyErr_SetString PyExc_SystemError ''bad argument to internal function'' s)
      | Some r \<Rightarrow>
          (case ob_val (objs s r) of
             PyList items \<Rightarrow>
               if i < length items then (items ! i, s)
               else (None, PyErr_SetString PyExc_IndexError ''list index out of range'' s)
           | _ \<Rightarrow> (None, PyErr_SetString PyExc_SystemError
                             ''bad argument to internal function'' s)))"

definition PyList_New :: "nat \<Rightarrow> 'a state \<Rightarrow> pyref \<times> 'a state" where
  "PyList_New n s = alloc PyList_Type (PyList (replicate n None)) s"

definition PyList_SetItem :: "pyref \<Rightarrow> nat \<Rightarrow> pyref option \<Rightarrow> 'a state \<Rightarrow> 'a state" where
  "PyList_SetItem op i newitem s =
     (case ob_val (objs s op) of
        PyList items \<Rightarrow>
          if i < length items then
            (let s1 = s\<lparr>objs := (objs s)(op := (objs s op)\<lparr>ob_val := PyList (items[i := newitem])\<rparr>)\<rparr>
             in Py_XDECREF (items ! i) s1)
          else PyErr_SetString PyExc_IndexError ''list assignment index out of range''
                 (Py_XDECREF newitem s)
      | _ \<Rightarrow> PyErr_SetString PyExc_SystemError ''bad argument to internal function''
               (Py_XDECREF newitem s))"

text \<open>Tuples. \<^verbatim>\<open>PyTuple_SetItem\<close> wants a tuple with one reference, and steals the item's.\<close>

definition PyTuple_Check :: "'a state \<Rightarrow> pyref option \<Rightarrow> bool" where
  "PyTuple_Check s src =
     (case src of None \<Rightarrow> False
      | Some r \<Rightarrow> (case ob_val (objs s r) of PyTuple items \<Rightarrow> True | _ \<Rightarrow> False))"

definition PyTuple_Size :: "pyref option \<Rightarrow> 'a state \<Rightarrow> int \<times> 'a state" where
  "PyTuple_Size src s =
     (case src of
        None \<Rightarrow> (- 1, PyErr_SetString PyExc_SystemError ''bad argument to internal function'' s)
      | Some r \<Rightarrow>
          (case ob_val (objs s r) of
             PyTuple items \<Rightarrow> (int (length items), s)
           | _ \<Rightarrow> (- 1, PyErr_SetString PyExc_SystemError
                            ''bad argument to internal function'' s)))"

definition PyTuple_GetItem :: "pyref option \<Rightarrow> nat \<Rightarrow> 'a state \<Rightarrow> pyref option \<times> 'a state" where
  "PyTuple_GetItem src i s =
     (case src of
        None \<Rightarrow> (None, PyErr_SetString PyExc_SystemError ''bad argument to internal function'' s)
      | Some r \<Rightarrow>
          (case ob_val (objs s r) of
             PyTuple items \<Rightarrow>
               if i < length items then (items ! i, s)
               else (None, PyErr_SetString PyExc_IndexError ''tuple index out of range'' s)
           | _ \<Rightarrow> (None, PyErr_SetString PyExc_SystemError
                             ''bad argument to internal function'' s)))"

definition PyTuple_New :: "nat \<Rightarrow> 'a state \<Rightarrow> pyref \<times> 'a state" where
  "PyTuple_New n s = alloc PyTuple_Type (PyTuple (replicate n None)) s"

definition PyTuple_SetItem :: "pyref \<Rightarrow> nat \<Rightarrow> pyref option \<Rightarrow> 'a state \<Rightarrow> 'a state" where
  "PyTuple_SetItem op i newitem s =
     (case ob_val (objs s op) of
        PyTuple items \<Rightarrow>
          if ob_refcnt (objs s op) \<noteq> 1 then
            PyErr_SetString PyExc_SystemError ''bad argument to internal function''
              (Py_XDECREF newitem s)
          else if i < length items then
            (let s1 = s\<lparr>objs := (objs s)(op := (objs s op)\<lparr>ob_val := PyTuple (items[i := newitem])\<rparr>)\<rparr>
             in Py_XDECREF (items ! i) s1)
          else PyErr_SetString PyExc_IndexError ''tuple assignment index out of range''
                 (Py_XDECREF newitem s)
      | _ \<Rightarrow> PyErr_SetString PyExc_SystemError ''bad argument to internal function''
               (Py_XDECREF newitem s))"

text \<open>
  \<^verbatim>\<open>PyObject_CallObject\<close>: the invocation is recorded in \<open>calls\<close>, then the callable runs.
  What it does is the host's: \<open>callee\<close> stands for it.
\<close>

definition PyObject_CallObject ::
  "(pyref \<Rightarrow> pyref \<Rightarrow> 'a state \<Rightarrow> pyref option \<times> 'a state) \<Rightarrow> pyref option \<Rightarrow> pyref \<Rightarrow>
   'a state \<Rightarrow> pyref option \<times> 'a state" where
  "PyObject_CallObject callee callable args s =
     (case callable of
        None \<Rightarrow> (None, PyErr_SetString PyExc_SystemError ''null argument to internal routine'' s)
      | Some f \<Rightarrow> callee f args (s\<lparr>calls := calls s @ [(f, args)]\<rparr>))"

section \<open>The generic caster for objects stored on the heap\<close>

text \<open>
  Modelled from the spec: \<^verbatim>\<open>object\<close>, the type of the member \<^verbatim>\<open>temp\<close>, is declared in
  \<^verbatim>\<open>pybind/pytypes.h\<close>, which is not among the sources. Dynamic objects are
  reference-counted: \<^verbatim>\<open>temp\<close> owns the reference to the conversion result it holds, and
  assigning another result to it releases the one it held. The other members of
  \<^verbatim>\<open>type_caster<type>\<close> are \<^verbatim>\<open>value\<close> (here \<open>caster_value\<close>, the name \<open>value\<close> being the
  instance's field) and \<^verbatim>\<open>typeinfo\<close>.
\<close>

record 'a type_caster =
  caster_value :: "addr option"
  typeinfo :: "'a type_info option"
  temp :: "pyref option"

text \<open>The constructor looks the type up in the Type Registry.\<close>

definition type_caster_init ::
  "(type_id \<rightharpoonup> 'a type_info) \<Rightarrow> 'a native_type \<Rightarrow> 'a type_caster" where
  "type_caster_init registered_types T =
     \<lparr>caster_value = None, typeinfo = registered_types (type_id T), temp = None\<rparr>"

text \<open>
  \<^verbatim>\<open>load\<close>, lines 35 to 50. \<open>load_conversions\<close> is the \<^verbatim>\<open>for\<close> loop over
  \<^verbatim>\<open>typeinfo->implicit_conversions\<close>, entered with the conversions still to try.
\<close>

function load ::
    "'a type_caster \<Rightarrow> pyref option \<Rightarrow> bool \<Rightarrow> 'a state \<Rightarrow> (bool \<times> 'a type_caster) \<times> 'a state"
  and load_conversions ::
    "(pyref \<Rightarrow> pytype \<Rightarrow> 'a state \<Rightarrow> pyref option \<times> 'a state) list \<Rightarrow> 'a type_info \<Rightarrow>
     'a type_caster \<Rightarrow> pyref \<Rightarrow> 'a state \<Rightarrow> (bool \<times> 'a type_caster) \<times> 'a state"
where
  "load this src convert s =
     (case src of
        None \<Rightarrow> ((False, this), s)
      | Some r \<Rightarrow>
          (case typeinfo this of
             None \<Rightarrow> ((False, this), s)
           | Some ti \<Rightarrow>
               if PyType_IsSubtype s (Py_TYPE s r) (type ti)
               then ((True, this\<lparr>caster_value := value (as_instance (objs s r))\<rparr>), s)
               else if convert
               then load_conversions (implicit_conversions ti) ti this r s
               else ((False, this), s)))"
| "load_conversions [] ti this r s = ((False, this), s)"
| "load_conversions (converter # rest) ti this r s =
     (case converter r (type ti) s of
        (t, s1) \<Rightarrow>
          (case load (this\<lparr>temp := t\<rparr>) t False (Py_XDECREF (temp this) s1) of
             ((ok, this'), s2) \<Rightarrow>
               if ok then ((True, this'), s2)
               else load_conversions rest ti this' r s2))"
  by pat_completeness auto
termination
  by (relation "measure (\<lambda>x. case x of
        Inl (this, src, convert, s) \<Rightarrow>
          (if convert
           then (case typeinfo this of None \<Rightarrow> 0 | Some ti \<Rightarrow> length (implicit_conversions ti) + 2)
           else 0)
      | Inr (cs, ti, this, r, s) \<Rightarrow> length cs + 1)") auto

text \<open>
  \<^verbatim>\<open>handle_return_value_policy\<close>, the overload for a copy-constructible type (lines 95 to
  106). \<open>cc\<close> is the copy constructor. \<^verbatim>\<open>cast\<close> calls it with \<^verbatim>\<open>inst->value\<close> set; a
  null \<^verbatim>\<open>inst->value\<close> would be dereferenced in C++, and the model leaves the state as it is.
\<close>

definition handle_return_value_policy_copyable ::
  "('a \<Rightarrow> 'a) \<Rightarrow> pyref \<Rightarrow> return_value_policy \<Rightarrow> pyref option \<Rightarrow> 'a state \<Rightarrow> 'a state" where
  "handle_return_value_policy_copyable cc inst policy parent' s =
     (if policy = copy then
        (case value (as_instance (objs s inst)) of
           None \<Rightarrow> s
         | Some p \<Rightarrow>
             (case new_T (cc (mem s p)) s of
                (a, s1) \<Rightarrow> set_instance inst ((as_instance (objs s1 inst))\<lparr>value := Some a\<rparr>) s1))
      else if policy = reference then
        set_instance inst ((as_instance (objs s inst))\<lparr>owned := False\<rparr>) s
      else if policy = reference_internal then
        Py_XINCREF parent'
          (set_instance inst ((as_instance (objs s inst))\<lparr>owned := False, parent := parent'\<rparr>) s)
      else s)"

text \<open>The overload for a type that is not copy-constructible (lines 108 to 119).\<close>

definition handle_return_value_policy_noncopyable ::
  "pyref \<Rightarrow> return_value_policy \<Rightarrow> pyref option \<Rightarrow> 'a state \<Rightarrow> cast_error + 'a state" where
  "handle_return_value_policy_noncopyable inst policy parent' s =
     (if policy = copy then
        Inl (cast_error ''return_value_policy = copy, but the object is non-copyable!'')
      else if policy = reference then
        Inr (set_instance inst ((as_instance (objs s inst))\<lparr>owned := False\<rparr>) s)
      else if policy = reference_internal then
        Inr (Py_XINCREF parent'
          (set_instance inst ((as_instance (objs s inst))\<lparr>owned := False, parent := parent'\<rparr>) s))
      else Inr s)"

text \<open>Overload resolution by \<^verbatim>\<open>std::is_copy_constructible\<close>.\<close>

definition handle_return_value_policy ::
  "'a native_type \<Rightarrow> pyref \<Rightarrow> return_value_policy \<Rightarrow> pyref option \<Rightarrow> 'a state \<Rightarrow>
   cast_error + 'a state" where
  "handle_return_value_policy T inst policy parent' s =
     (case copy_constructor T of
        Some cc \<Rightarrow> Inr (handle_return_value_policy_copyable cc inst policy parent' s)
      | None \<Rightarrow> handle_return_value_policy_noncopyable inst policy parent' s)"

text \<open>
  The self-reference exception of \<^verbatim>\<open>cast\<close> (lines 65 and 66): the policy is
  \<^verbatim>\<open>reference_internal\<close>, the parent is not null and wraps the pointer being cast.
\<close>

definition dont_cache :: "return_value_policy \<Rightarrow> pyref option \<Rightarrow> addr \<Rightarrow> 'a state \<Rightarrow> bool" where
  "dont_cache policy parent' p s =
     (policy = reference_internal \<and>
      (case parent' of None \<Rightarrow> False
       | Some par \<Rightarrow> value (as_instance (objs s par)) = Some p))"

text \<open>
  \<^verbatim>\<open>cast(const type *, policy, parent)\<close>, lines 58 to 93. The result is \<open>Inl\<close> for a thrown
  \<^verbatim>\<open>cast_error\<close>, \<open>Inr None\<close> for a returned \<^verbatim>\<open>nullptr\<close>.
\<close>

definition cast_ptr ::
  "'a native_type \<Rightarrow> (type_id \<rightharpoonup> 'a type_info) \<Rightarrow> addr option \<Rightarrow> return_value_policy \<Rightarrow>
   pyref option \<Rightarrow> 'a state \<Rightarrow> (cast_error + pyref option) \<times> 'a state" where
  "cast_ptr T registered_types src policy parent' s =
     (case src of
        None \<Rightarrow> (Inr (Some Py_None), Py_INCREF Py_None s)
      | Some p \<Rightarrow>
          (case (if dont_cache policy parent' p s then None else registered_instances s (Some p)) of
             Some inst \<Rightarrow> (Inr (Some inst), Py_INCREF inst s)
           | None \<Rightarrow>
               (case registered_types (type_id T) of
                  None \<Rightarrow>
                    (Inr None,
                     PyErr_SetString PyExc_TypeError (''Unregistered type : '' @ type_id T) s)
                | Some type_info \<Rightarrow>
                    (case PyType_GenericAlloc (type type_info) s of
                       (inst, s1) \<Rightarrow>
                         (let s2 = set_instance inst
                                     \<lparr>value = Some p, owned = True, parent = None\<rparr> s1;
                              policy' = (if policy = automatic then take_ownership else policy)
                          in case handle_return_value_policy T inst policy' parent' s2 of
                               Inl e \<Rightarrow> (Inl e, s2)
                             | Inr s3 \<Rightarrow>
                                 (let s4 = init_holder type_info inst s3;
                                      s5 = (if \<not> dont_cache policy parent' p s
                                            then s4\<lparr>registered_instances :=
                                                     (registered_instances s4)
                                                       (value (as_instance (objs s4 inst)) \<mapsto> inst)\<rparr>
                                            else s4)
                                  in (Inr (Some inst), s5)))))))"

text \<open>\<^verbatim>\<open>cast(const type &, policy, parent)\<close>, lines 52 to 56; \<open>src\<close> is the address of the value.\<close>

definition cast_ref ::
  "'a native_type \<Rightarrow> (type_id \<rightharpoonup> 'a type_info) \<Rightarrow> addr \<Rightarrow> return_value_policy \<Rightarrow>
   pyref option \<Rightarrow> 'a state \<Rightarrow> (cast_error + pyref option) \<times> 'a state" where
  "cast_ref T registered_types src policy parent' s =
     cast_ptr T registered_types (Some src)
       (if policy = automatic then copy else policy) parent' s"

section \<open>The casters of primitive types\<close>

text \<open>
  A template parameter \<^verbatim>\<open>type_caster<Value>\<close> of a container caster is a record of what the
  container uses of it: a newly constructed caster, \<^verbatim>\<open>load\<close>, the conversion operator to
  \<^verbatim>\<open>Value\<close>, and the static \<^verbatim>\<open>cast\<close>.
\<close>

record ('c, 'v, 'a) value_conv =
  conv_fresh :: 'c
  conv_load :: "'c \<Rightarrow> pyref option \<Rightarrow> bool \<Rightarrow> 'a state \<Rightarrow> (bool \<times> 'c) \<times> 'a state"
  conv_value :: "'c \<Rightarrow> 'v"
  conv_cast :: "'v \<Rightarrow> return_value_policy \<Rightarrow> pyref option \<Rightarrow> 'a state \<Rightarrow>
                (cast_error + pyref option) \<times> 'a state"

text \<open>
  \<^verbatim>\<open>PYBIND_TYPE_CASTER_NUMBER(int32_t, long, PyLong_AsLong, PyLong_FromLong)\<close>, lines 140 to
  157. The caster is its member \<^verbatim>\<open>value\<close>; \<^verbatim>\<open>(type)\<close> truncates the \<^verbatim>\<open>long\<close>, \<^verbatim>\<open>(py_type)\<close>
  extends the sign.
\<close>

definition int32_load ::
  "32 word \<Rightarrow> pyref option \<Rightarrow> bool \<Rightarrow> 'a state \<Rightarrow> (bool \<times> 32 word) \<times> 'a state" where
  "int32_load this src convert s =
     (case PyLong_AsLong src s of
        (l, s1) \<Rightarrow>
          (let v = (ucast l :: 32 word)
           in if v = - 1 \<and> PyErr_Occurred s1 then ((False, v), PyErr_Clear s1)
              else ((True, v), s1)))"

definition int32_cast ::
  "32 word \<Rightarrow> return_value_policy \<Rightarrow> pyref option \<Rightarrow> 'a state \<Rightarrow>
   (cast_error + pyref option) \<times> 'a state" where
  "int32_cast src policy parent' s =
     (case PyLong_FromLong (scast src) s of (r, s1) \<Rightarrow> (Inr r, s1))"

text \<open>
  The member \<^verbatim>\<open>value\<close> of a new \<^verbatim>\<open>type_caster<int32_t>\<close> is indeterminate; \<^verbatim>\<open>load\<close> assigns
  it before anything reads it, and the model starts it at 0.
\<close>

definition int32_conv :: "(32 word, 32 word, 'a) value_conv" where
  "int32_conv =
     \<lparr>conv_fresh = 0, conv_load = int32_load, conv_value = (\<lambda>v. v), conv_cast = int32_cast\<rparr>"

text \<open>
  \<^verbatim>\<open>type_caster<char>\<close>, lines 242 to 266. The member \<^verbatim>\<open>value\<close> is a \<^verbatim>\<open>char *\<close>: \<open>None\<close>
  before a successful \<^verbatim>\<open>load\<close> (the pointer is indeterminate then), afterwards the bytes of
  the C string before its terminating NUL. \<^verbatim>\<open>operator char()\<close> is \<^verbatim>\<open>*value\<close>, the first byte
  of the C string, which is the NUL when there is no other.
\<close>

definition char_load ::
  "8 word list option \<Rightarrow> pyref option \<Rightarrow> bool \<Rightarrow> 'a state \<Rightarrow>
   (bool \<times> 8 word list option) \<times> 'a state" where
  "char_load this src convert s =
     (case PyUnicode_AsUTF8 src s of
        (None, s1) \<Rightarrow> ((False, this), PyErr_Clear s1)
      | (Some ptr, s1) \<Rightarrow> ((True, Some ptr), s1))"

definition operator_char :: "8 word list option \<Rightarrow> 8 word" where
  "operator_char this = (case this of Some (b # bs) \<Rightarrow> b | _ \<Rightarrow> 0)"

definition char_cast ::
  "8 word \<Rightarrow> return_value_policy \<Rightarrow> pyref option \<Rightarrow> 'a state \<Rightarrow>
   (cast_error + pyref option) \<times> 'a state" where
  "char_cast src policy parent' s =
     (case PyUnicode_DecodeLatin1 [src] s of (r, s1) \<Rightarrow> (Inr r, s1))"

definition char_conv :: "(8 word list option, 8 word, 'a) value_conv" where
  "char_conv =
     \<lparr>conv_fresh = None, conv_load = char_load, conv_value = operator_char,
      conv_cast = char_cast\<rparr>"

section \<open>The container casters\<close>

text \<open>
  \<^verbatim>\<open>type_caster<std::vector<Value>>::load\<close>, lines 272 to 285. The caster is its member
  \<^verbatim>\<open>value\<close>, the vector. \<open>vector_load_loop\<close> is the \<^verbatim>\<open>for\<close> loop, entered at index \<open>i\<close>.
\<close>

function vector_load_loop ::
  "('c, 'v, 'a) value_conv \<Rightarrow> pyref option \<Rightarrow> bool \<Rightarrow> nat \<Rightarrow> nat \<Rightarrow> 'v list \<Rightarrow> 'a state \<Rightarrow>
   (bool \<times> 'v list) \<times> 'a state" where
  "vector_load_loop value_conv src convert size' i val s =
     (if i < size' then
        (case PyList_GetItem src i s of
           (item, s0) \<Rightarrow>
             (case conv_load value_conv (conv_fresh value_conv) item convert s0 of
                ((ok, conv), s1) \<Rightarrow>
                  if \<not> ok then ((False, val), s1)
                  else vector_load_loop value_conv src convert size' (i + 1)
                         (val @ [conv_value value_conv conv]) s1))
      else ((True, val), s))"
  by pat_completeness auto
termination
  by (relation "measure (\<lambda>(value_conv, src, convert, size', i, val, s). size' - i)") auto

declare vector_load_loop.simps [simp del]

definition vector_load ::
  "('c, 'v, 'a) value_conv \<Rightarrow> 'v list \<Rightarrow> pyref option \<Rightarrow> bool \<Rightarrow> 'a state \<Rightarrow>
   (bool \<times> 'v list) \<times> 'a state" where
  "vector_load value_conv this src convert s =
     (if \<not> PyList_Check s src then ((False, this), s)
      else vector_load_loop value_conv src convert (PyList_GET_SIZE s src) 0 [] s)"

text \<open>\<^verbatim>\<open>type_caster<std::vector<Value>>::cast\<close>, lines 287 to 299.\<close>

fun vector_cast_loop ::
  "('c, 'v, 'a) value_conv \<Rightarrow> pyref \<Rightarrow> nat \<Rightarrow> 'v list \<Rightarrow> return_value_policy \<Rightarrow> pyref option \<Rightarrow>
   'a state \<Rightarrow> (cast_error + pyref option) \<times> 'a state" where
  "vector_cast_loop value_conv list' index [] policy parent' s = (Inr (Some list'), s)"
| "vector_cast_loop value_conv list' index (v # rest) policy parent' s =
     (case conv_cast value_conv v policy parent' s of
        (Inl e, s1) \<Rightarrow> (Inl e, s1)
      | (Inr None, s1) \<Rightarrow> (Inr None, Py_DECREF list' s1)
      | (Inr (Some value'), s1) \<Rightarrow>
          vector_cast_loop value_conv list' (index + 1) rest policy parent'
            (PyList_SetItem list' index (Some value') s1))"

definition vector_cast ::
  "('c, 'v, 'a) value_conv \<Rightarrow> 'v list \<Rightarrow> return_value_policy \<Rightarrow> pyref option \<Rightarrow> 'a state \<Rightarrow>
   (cast_error + pyref option) \<times> 'a state" where
  "vector_cast value_conv src policy parent' s =
     (case PyList_New (length src) s of
        (list', s1) \<Rightarrow> vector_cast_loop value_conv list' 0 src policy parent' s1)"

definition vector_conv :: "('c, 'v, 'a) value_conv \<Rightarrow> ('v list, 'v list, 'a) value_conv" where
  "vector_conv value_conv =
     \<lparr>conv_fresh = [], conv_load = vector_load value_conv, conv_value = (\<lambda>v. v),
      conv_cast = vector_cast value_conv\<rparr>"

text \<open>
  \<^verbatim>\<open>type_caster<std::tuple<Tuple...>>::load\<close>, lines 432 to 444. The member \<^verbatim>\<open>value\<close> is the
  tuple of the element casters: each element is its \<^verbatim>\<open>load\<close> and its caster object (of
  one type \<open>'c\<close>, a sum type when the elements differ), and \<^verbatim>\<open>size\<close> is their number.
  \<open>tuple_load_elements\<close> is the braced initialiser of \<^verbatim>\<open>results\<close>, whose clauses are
  evaluated in order, from index \<open>i\<close> on.
\<close>

type_synonym ('c, 'a) element_caster =
  "('c \<Rightarrow> pyref option \<Rightarrow> bool \<Rightarrow> 'a state \<Rightarrow> (bool \<times> 'c) \<times> 'a state) \<times> 'c"

fun tuple_load_elements ::
  "('c, 'a) element_caster list \<Rightarrow> pyref option \<Rightarrow> nat \<Rightarrow> bool \<Rightarrow> 'a state \<Rightarrow>
   (bool list \<times> ('c, 'a) element_caster list) \<times> 'a state" where
  "tuple_load_elements [] src i convert s = (([], []), s)"
| "tuple_load_elements ((ld, c) # rest) src i convert s =
     (case PyTuple_GetItem src i s of
        (item, s0) \<Rightarrow>
          (case ld c item convert s0 of
             ((r, c'), s1) \<Rightarrow>
               (case tuple_load_elements rest src (i + 1) convert s1 of
                  ((rs, rest'), s2) \<Rightarrow> ((r # rs, (ld, c') # rest'), s2))))"

definition tuple_load ::
  "('c, 'a) element_caster list \<Rightarrow> pyref option \<Rightarrow> bool \<Rightarrow> 'a state \<Rightarrow>
   (bool \<times> ('c, 'a) element_caster list) \<times> 'a state" where
  "tuple_load this src convert s =
     (if \<not> PyTuple_Check s src then ((False, this), s)
      else
        (case PyTuple_Size src s of
           (n, s0) \<Rightarrow>
             if n \<noteq> int (length this) then ((False, this), s0)
             else
               (case tuple_load_elements this src 0 convert s0 of
                  ((results, this'), s1) \<Rightarrow> ((list_all (\<lambda>r. r) results, this'), s1))))"

section \<open>The conversion functions and the call marshaller\<close>

text \<open>\<^verbatim>\<open>pybind::cast<T>(PyObject *)\<close>, lines 522 to 527.\<close>

definition pybind_cast ::
  "('c, 'v, 'a) value_conv \<Rightarrow> pyref option \<Rightarrow> 'a state \<Rightarrow> (cast_error + 'v) \<times> 'a state" where
  "pybind_cast conv object s =
     (case conv_load conv (conv_fresh conv) object True s of
        ((ok, c), s1) \<Rightarrow>
          if \<not> ok then (Inl (cast_error ''Unable to cast Python object to C++ type''), s1)
          else (Inr (conv_value conv c), s1))"

text \<open>
  \<^verbatim>\<open>handle::call\<close>, lines 537 to 560. An argument is the static \<^verbatim>\<open>cast\<close> of its caster
  applied to it, still waiting for policy and parent. \<open>call_cast_args\<close> is the braced
  initialiser of the array \<^verbatim>\<open>args\<close>: the casts run in order, and a \<^verbatim>\<open>cast_error\<close> thrown by
  one of them leaves the initialiser, and \<^verbatim>\<open>call\<close>, at once.
\<close>

type_synonym 'a argument =
  "return_value_policy \<Rightarrow> pyref option \<Rightarrow> 'a state \<Rightarrow> (cast_error + pyref option) \<times> 'a state"

fun call_cast_args ::
  "'a argument list \<Rightarrow> 'a state \<Rightarrow> (cast_error + pyref option list) \<times> 'a state" where
  "call_cast_args [] s = (Inr [], s)"
| "call_cast_args (arg # rest) s =
     (case arg automatic None s of
        (Inl e, s1) \<Rightarrow> (Inl e, s1)
      | (Inr r, s1) \<Rightarrow>
          (case call_cast_args rest s1 of
             (Inl e, s2) \<Rightarrow> (Inl e, s2)
           | (Inr rs, s2) \<Rightarrow> (Inr (r # rs), s2)))"

fun call_set_items :: "pyref \<Rightarrow> nat \<Rightarrow> pyref option list \<Rightarrow> 'a state \<Rightarrow> 'a state" where
  "call_set_items tuple counter [] s = s"
| "call_set_items tuple counter (result # rest) s =
     call_set_items tuple (counter + 1) rest (PyTuple_SetItem tuple counter result s)"

definition call ::
  "(pyref \<Rightarrow> pyref \<Rightarrow> 'a state \<Rightarrow> pyref option \<times> 'a state) \<Rightarrow> pyref option \<Rightarrow>
   'a argument list \<Rightarrow> 'a state \<Rightarrow> (cast_error + pyref option) \<times> 'a state" where
  "call callee m_ptr args' s =
     (case call_cast_args args' s of
        (Inl e, s1) \<Rightarrow> (Inl e, s1)
      | (Inr args, s1) \<Rightarrow>
          if list_ex (\<lambda>result. result = None) args then
            (Inl (cast_error
                    ''handle::call(): unable to convert input arguments to Python objects''),
             fold Py_XDECREF args s1)
          else
            (case PyTuple_New (length args) s1 of
               (tuple, s2) \<Rightarrow>
                 (case PyObject_CallObject callee m_ptr tuple (call_set_items tuple 0 args s2) of
                    (result, s3) \<Rightarrow> (Inr result, Py_DECREF tuple s3))))"

section \<open>The conversion search as the specification words it\<close>

text \<open>
  The specification of \<^verbatim>\<open>load\<close>: each implicit-conversion function is tried in
  registration order; a non-null conversion result is accepted when its runtime type is the
  registered type or a subtype of it, with no further conversion applied to it; the first
  success wins, and exhausting the list is failure. \<open>conversion_search\<close> follows these
  words: it calls no \<^verbatim>\<open>load\<close>. The caster keeps every conversion result in \<^verbatim>\<open>temp\<close>.
\<close>

fun conversion_search ::
  "(pyref \<Rightarrow> pytype \<Rightarrow> 'a state \<Rightarrow> pyref option \<times> 'a state) list \<Rightarrow> 'a type_info \<Rightarrow>
   'a type_caster \<Rightarrow> pyref \<Rightarrow> 'a state \<Rightarrow> (bool \<times> 'a type_caster) \<times> 'a state" where
  "conversion_search [] ti this r s = ((False, this), s)"
| "conversion_search (converter # rest) ti this r s =
     (case converter r (type ti) s of
        (t, s1) \<Rightarrow>
          (let s2 = Py_XDECREF (temp this) s1; this1 = this\<lparr>temp := t\<rparr>
           in case t of
                None \<Rightarrow> conversion_search rest ti this1 r s2
              | Some t' \<Rightarrow>
                  if PyType_IsSubtype s2 (Py_TYPE s2 t') (type ti)
                  then ((True, this1\<lparr>caster_value := value (as_instance (objs s2 t'))\<rparr>), s2)
                  else conversion_search rest ti this1 r s2))"

section \<open>Auxiliary notions of the proofs\<close>

text \<open>
  \<open>list_holds s l vals n\<close>: in the state \<open>s\<close> the object \<open>l\<close> is a list of \<open>n\<close> items
  whose first items are objects, other than \<open>l\<close>, with the contents \<open>vals\<close>.
\<close>

definition list_holds :: "'a state \<Rightarrow> pyref \<Rightarrow> pyval list \<Rightarrow> nat \<Rightarrow> bool" where
  "list_holds s l vals n =
     (\<exists>items. ob_val (objs s l) = PyList items \<and> length items = n \<and> l < next_obj s \<and>
        length vals \<le> n \<and>
        (\<forall>i<length vals. \<exists>r. items ! i = Some r \<and> r < next_obj s \<and> r \<noteq> l \<and>
             ob_val (objs s r) = vals ! i))"

text \<open>
  An element caster is flat for an encoding \<open>enc\<close> of the native values as dynamic types
  and contents when its \<^verbatim>\<open>cast\<close> does nothing but allocate the one object that encodes the
  value, and its \<^verbatim>\<open>load\<close>, with no error pending, reads an object with the content that
  encodes a value back as that value and leaves the state alone.
\<close>

definition flat_cast :: "('c, 'v, 'a) value_conv \<Rightarrow> ('v \<Rightarrow> pytype \<times> pyval) \<Rightarrow> bool" where
  "flat_cast vc enc =
     (\<forall>x policy parent' s.
        conv_cast vc x policy parent' s =
          (case alloc (fst (enc x)) (snd (enc x)) s of (r, s1) \<Rightarrow> (Inr (Some r), s1)))"

definition flat_load :: "('c, 'v, 'a) value_conv \<Rightarrow> ('v \<Rightarrow> pytype \<times> pyval) \<Rightarrow> bool" where
  "flat_load vc enc =
     (\<forall>x c r convert s.
        ob_val (objs s r) = snd (enc x) \<and> error_indicator s = None \<longrightarrow>
        (\<exists>c'. conv_load vc c (Some r) convert s = ((True, c'), s) \<and> conv_value vc c' = x))"

section \<open>An example world\<close>

text \<open>
  Two bound classes: \<open>''B''\<close> is copy-constructible and has one implicit conversion, from
  instances of the class of dynamic type \<open>PyHeap_Type 0\<close>; \<open>''N''\<close> cannot be copied. The
  type \<open>''U''\<close> is not registered. Native values are numbers.
\<close>

definition ex_converter :: "pyref \<Rightarrow> pytype \<Rightarrow> nat state \<Rightarrow> pyref option \<times> nat state" where
  "ex_converter r tp s =
     (if ob_type (objs s r) = PyHeap_Type 0
      then (case alloc tp (Instance \<lparr>value = Some (brk s), owned = True, parent = None\<rparr>)
                   (s\<lparr>mem := (mem s)(brk s := 1), brk := brk s + 1\<rparr>) of
              (r', s1) \<Rightarrow> (Some r', s1))
      else (None, s))"

definition ex_info_B :: "nat type_info" where
  "ex_info_B =
     \<lparr>type = PyHeap_Type 1, implicit_conversions = [ex_converter], init_holder = (\<lambda>r s. s)\<rparr>"

definition ex_info_N :: "nat type_info" where
  "ex_info_N = \<lparr>type = PyHeap_Type 2, implicit_conversions = [], init_holder = (\<lambda>r s. s)\<rparr>"

definition ex_types :: "type_id \<rightharpoonup> nat type_info" where
  "ex_types = [''B'' \<mapsto> ex_info_B, ''N'' \<mapsto> ex_info_N]"

definition ex_B :: "nat native_type" where
  "ex_B = \<lparr>type_id = ''B'', copy_constructor = Some (\<lambda>v. v)\<rparr>"

definition ex_N :: "nat native_type" where
  "ex_N = \<lparr>type_id = ''N'', copy_constructor = None\<rparr>"

definition ex_U :: "nat native_type" where
  "ex_U = \<lparr>type_id = ''U'', copy_constructor = Some (\<lambda>v. v)\<rparr>"

text \<open>
  The objects: 0 is \<^verbatim>\<open>None\<close>; 1 wraps the \<open>''B''\<close> at address 100; 2, 3 and 4 are
  \<^verbatim>\<open>1\<close>, \<^verbatim>\<open>"x"\<close> and \<^verbatim>\<open>3\<close>; 5 is the list \<^verbatim>\<open>[1, "x", 3]\<close>; 6 is the tuple \<^verbatim>\<open>("x", 3)\<close>; 7 is an
  instance of the class \<open>PyHeap_Type 0\<close>; 8 is \<^verbatim>\<open>"ab"\<close>; 9 wraps the \<open>''N''\<close> at address 110;
  10 is a callable, which answers \<^verbatim>\<open>None\<close>. The addresses from 11 on are free.
\<close>

definition ex_objs :: "pyref \<Rightarrow> pyobject" where
  "ex_objs =
     (\<lambda>r. \<lparr>ob_refcnt = 0, ob_type = PyNone_Type, ob_val = PyNone\<rparr>)
     (0 := \<lparr>ob_refcnt = 1, ob_type = PyNone_Type, ob_val = PyNone\<rparr>,
      1 := \<lparr>ob_refcnt = 1, ob_type = PyHeap_Type 1,
            ob_val = Instance \<lparr>value = Some 100, owned = False, parent = None\<rparr>\<rparr>,
      2 := \<lparr>ob_refcnt = 1, ob_type = PyLong_Type, ob_val = PyLong 1\<rparr>,
      3 := \<lparr>ob_refcnt = 1, ob_type = PyUnicode_Type, ob_val = PyUnicode [120]\<rparr>,
      4 := \<lparr>ob_refcnt = 1, ob_type = PyLong_Type, ob_val = PyLong 3\<rparr>,
      5 := \<lparr>ob_refcnt = 1, ob_type = PyList_Type, ob_val = PyList [Some 2, Some 3, Some 4]\<rparr>,
      6 := \<lparr>ob_refcnt = 1, ob_type = PyTuple_Type, ob_val = PyTuple [Some 3, Some 4]\<rparr>,
      7 := \<lparr>ob_refcnt = 1, ob_type = PyHeap_Type 0,
            ob_val = Instance \<lparr>value = Some 101, owned = True, parent = None\<rparr>\<rparr>,
      8 := \<lparr>ob_refcnt = 1, ob_type = PyUnicode_Type, ob_val = PyUnicode [97, 98]\<rparr>,
      9 := \<lparr>ob_refcnt = 1, ob_type = PyHeap_Type 2,
            ob_val = Instance \<lparr>value = Some 110, owned = False, parent = None\<rparr>\<rparr>,
      10 := \<lparr>ob_refcnt = 1, ob_type = PyHeap_Type 3, ob_val = PyNone\<rparr>)"

definition ex_callee :: "pyref \<Rightarrow> pyref \<Rightarrow> nat state \<Rightarrow> pyref option \<times> nat state" where
  "ex_callee f args s = (Some Py_None, Py_INCREF Py_None s)"

definition ex_state :: "nat state" where
  "ex_state =
     \<lparr>objs = ex_objs, next_obj = 11, error_indicator = None, tp_mro = (\<lambda>t. [t]),
      registered_instances = [Some 100 \<mapsto> 1, Some 101 \<mapsto> 7, Some 110 \<mapsto> 9],
      mem = (\<lambda>a. 0)(100 := 42, 110 := 5, 120 := 6), brk = 200, calls = []\<rparr>"

text \<open>The casters of \<^verbatim>\<open>std::tuple<int32_t, int32_t>\<close> and of \<^verbatim>\<open>std::tuple<int32_t>\<close>.\<close>

definition ex_pair_caster :: "(32 word, nat) element_caster list" where
  "ex_pair_caster = [(int32_load, 0), (int32_load, 0)]"

definition ex_single_caster :: "(32 word, nat) element_caster list" where
  "ex_single_caster = [(int32_load, 0)]"

lemmas ex_defs = ex_state_def ex_objs_def ex_types_def ex_info_B_def ex_info_N_def ex_B_def
  ex_N_def ex_U_def

section \<open>The generic caster: load\<close>

text \<open>
  C7. \<^verbatim>\<open>load\<close> returns false and changes neither the state nor the caster when the
  dynamic value is null or the type has no entry in the Type Registry (the constructor
  then leaves \<^verbatim>\<open>typeinfo\<close> null); when the runtime type of the dynamic value is the
  registered type or a subtype of it, \<^verbatim>\<open>load\<close> returns true at once, its value bound to the
  native pointer the object wraps, and the state is unchanged.
\<close>

theorem load_contract:
  "load this None convert s = ((False, this), s) \<and>
   (typeinfo this1 = None \<longrightarrow> load this1 src convert s = ((False, this1), s)) \<and>
   (registered_types (type_id T) = None \<longrightarrow>
      load (type_caster_init registered_types T) src convert s
        = ((False, type_caster_init registered_types T), s)) \<and>
   (typeinfo this2 = Some ti \<and> PyType_IsSubtype s (Py_TYPE s r) (type ti) \<longrightarrow>
      load this2 (Some r) convert s
        = ((True, this2\<lparr>caster_value := value (as_instance (objs s r))\<rparr>), s))"
  by (simp add: type_caster_init_def split: option.splits)

theorem load_contract_witness:
  "typeinfo (type_caster_init ex_types ex_U) = None \<and>
   ex_types (type_id ex_U) = None \<and>
   load (type_caster_init ex_types ex_U) (Some 1) True ex_state
     = ((False, type_caster_init ex_types ex_U), ex_state) \<and>
   typeinfo (type_caster_init ex_types ex_B) = Some ex_info_B \<and>
   PyType_IsSubtype ex_state (Py_TYPE ex_state 1) (type ex_info_B) \<and>
   load (type_caster_init ex_types ex_B) (Some 1) True ex_state
     = ((True, (type_caster_init ex_types ex_B)\<lparr>caster_value := Some 100\<rparr>), ex_state)"
proof -
  have u: "ex_types (type_id ex_U) = None" by (simp add: ex_types_def ex_U_def)
  have b: "typeinfo (type_caster_init ex_types ex_B) = Some ex_info_B"
    by (simp add: type_caster_init_def ex_types_def ex_B_def)
  have sub: "PyType_IsSubtype ex_state (Py_TYPE ex_state 1) (type ex_info_B)"
    by (simp add: PyType_IsSubtype_def Py_TYPE_def ex_state_def ex_objs_def ex_info_B_def)
  have v: "value (as_instance (objs ex_state 1)) = Some 100"
    by (simp add: as_instance_def ex_state_def ex_objs_def)
  show ?thesis
    using load_contract[of "type_caster_init ex_types ex_U" True ex_state
        "type_caster_init ex_types ex_U" "Some 1" ex_types ex_U
        "type_caster_init ex_types ex_B" ex_info_B 1] u b sub v
    by (simp add: type_caster_init_def)
qed

lemma load_conversions_eq_search:
  "typeinfo this = Some ti \<Longrightarrow>
   load_conversions cs ti this r s = conversion_search cs ti this r s"
proof (induction cs arbitrary: this s)
  case Nil
  then show ?case by simp
next
  case (Cons c cs)
  obtain t s1 where c: "c r (type ti) s = (t, s1)" by (cases "c r (type ti) s")
  have ti': "typeinfo (this\<lparr>temp := t\<rparr>) = Some ti" using Cons.prems by simp
  show ?case
  proof (cases t)
    case None
    then show ?thesis using c Cons.IH[OF ti'] by simp
  next
    case (Some t')
    then show ?thesis using c Cons.IH[OF ti'] ti' by (simp add: Let_def)
  qed
qed

text \<open>
  C2. When the runtime type of the dynamic value does not match the registered type,
  \<^verbatim>\<open>load\<close> with conversion enabled is the search of the specification: the conversion
  functions are tried in registration order, each result is loaded with conversion
  disabled, so that a result is accepted only on a direct match of its type and no
  conversion is applied to a conversion result; the first success makes \<^verbatim>\<open>load\<close> return
  true, and the exhausted list makes it return false. With conversion disabled the same
  input fails, caster and state unchanged.
\<close>

theorem load_conversion_search:
  "typeinfo this = Some ti \<and> \<not> PyType_IsSubtype s (Py_TYPE s r) (type ti) \<longrightarrow>
     load this (Some r) True s = conversion_search (implicit_conversions ti) ti this r s \<and>
     load this (Some r) False s = ((False, this), s)"
  by (simp add: load_conversions_eq_search)

theorem load_conversion_search_witness:
  "typeinfo (type_caster_init ex_types ex_B) = Some ex_info_B \<and>
   \<not> PyType_IsSubtype ex_state (Py_TYPE ex_state 7) (type ex_info_B) \<and>
   fst (load (type_caster_init ex_types ex_B) (Some 7) True ex_state)
     = (True, \<lparr>caster_value = Some 200, typeinfo = Some ex_info_B, temp = Some 11\<rparr>) \<and>
   fst (load (type_caster_init ex_types ex_B) (Some 7) False ex_state)
     = (False, type_caster_init ex_types ex_B)"
proof -
  have h: "typeinfo (type_caster_init ex_types ex_B) = Some ex_info_B \<and>
      \<not> PyType_IsSubtype ex_state (Py_TYPE ex_state 7) (type ex_info_B)"
    by (simp add: type_caster_init_def PyType_IsSubtype_def Py_TYPE_def ex_defs)
  have "fst (conversion_search (implicit_conversions ex_info_B) ex_info_B
               (type_caster_init ex_types ex_B) 7 ex_state)
          = (True, \<lparr>caster_value = Some 200, typeinfo = Some ex_info_B, temp = Some 11\<rparr>)"
    by (simp add: type_caster_init_def PyType_IsSubtype_def Py_TYPE_def ex_defs ex_converter_def
        alloc_def Py_XDECREF_def as_instance_def Let_def)
  then show ?thesis
    using load_conversion_search[of "type_caster_init ex_types ex_B" ex_info_B ex_state 7] h
    by simp
qed

section \<open>The generic caster: cast\<close>

lemma cast_ptr_registered:
  assumes "registered_instances s (Some p) = Some inst" and "\<not> dont_cache policy parent' p s"
  shows "cast_ptr T registered_types (Some p) policy parent' s = (Inr (Some inst), Py_INCREF inst s)"
  using assms by (simp add: cast_ptr_def)

lemma handle_return_value_policy_keeps_value:
  assumes "policy = reference \<or> policy = take_ownership"
  shows "\<exists>s3. handle_return_value_policy T inst policy parent' s = Inr s3 \<and>
     (value (as_instance (objs s inst)) = Some p \<longrightarrow> value (as_instance (objs s3 inst)) = Some p)"
  using assms
  by (auto simp: handle_return_value_policy_def handle_return_value_policy_copyable_def
      handle_return_value_policy_noncopyable_def set_instance_def as_instance_def
      split: option.splits)

lemma cast_ptr_twice:
  assumes pol: "policy = reference \<or> policy = take_ownership"
    and ti: "registered_types (type_id T) = Some ti"
    and hook: "\<forall>r st. value (as_instance (objs (init_holder ti r st) r)) = value (as_instance (objs st r))"
  shows "\<exists>obj s1. cast_ptr T registered_types (Some p) policy parent' s = (Inr (Some obj), s1) \<and>
           cast_ptr T registered_types (Some p) policy parent' s1 = (Inr (Some obj), Py_INCREF obj s1)"
proof (cases "registered_instances s (Some p)")
  case (Some inst)
  have nd: "\<And>st. \<not> dont_cache policy parent' p st" using pol by (auto simp: dont_cache_def)
  have "registered_instances (Py_INCREF inst s) (Some p) = Some inst"
    using Some by (simp add: Py_INCREF_def)
  then show ?thesis using cast_ptr_registered[OF Some nd] cast_ptr_registered[OF _ nd] by blast
next
  case None
  have nd: "\<And>st. \<not> dont_cache policy parent' p st" using pol by (auto simp: dont_cache_def)
  define inst where "inst = next_obj s"
  define s1 where "s1 = snd (PyType_GenericAlloc (type ti) s)"
  define s2 where "s2 = set_instance inst \<lparr>value = Some p, owned = True, parent = None\<rparr> s1"
  have alloc: "PyType_GenericAlloc (type ti) s = (inst, s1)"
    by (simp add: PyType_GenericAlloc_def alloc_def inst_def s1_def)
  have v2: "value (as_instance (objs s2 inst)) = Some p"
    by (simp add: s2_def set_instance_def as_instance_def)
  have pol': "(if policy = automatic then take_ownership else policy) = policy" using pol by auto
  obtain s3 where s3: "handle_return_value_policy T inst policy parent' s2 = Inr s3"
    and v3: "value (as_instance (objs s3 inst)) = Some p"
    using handle_return_value_policy_keeps_value[OF pol, of T inst parent' s2 p] v2 by blast
  define s4 where "s4 = init_holder ti inst s3"
  have v4: "value (as_instance (objs s4 inst)) = Some p" using hook v3 by (simp add: s4_def)
  define s5 where "s5 = s4\<lparr>registered_instances := (registered_instances s4)(Some p \<mapsto> inst)\<rparr>"
  have first: "cast_ptr T registered_types (Some p) policy parent' s = (Inr (Some inst), s5)"
    using None nd[of s] ti alloc s3 v4 pol'
    by (simp add: cast_ptr_def s2_def[symmetric] s4_def[symmetric] s5_def)
  have "registered_instances s5 (Some p) = Some inst" by (simp add: s5_def)
  from cast_ptr_registered[OF this nd] first show ?thesis by blast
qed

lemma cast_ptr_new:
  assumes "registered_instances s (Some p) = None" and "registered_types (type_id T) = Some ti"
    and "policy \<noteq> automatic"
  shows "cast_ptr T registered_types (Some p) policy parent' s =
     (case handle_return_value_policy T (next_obj s) policy parent'
             (set_instance (next_obj s) \<lparr>value = Some p, owned = True, parent = None\<rparr>
                (snd (PyType_GenericAlloc (type ti) s))) of
        Inl e \<Rightarrow> (Inl e, set_instance (next_obj s) \<lparr>value = Some p, owned = True, parent = None\<rparr>
                (snd (PyType_GenericAlloc (type ti) s)))
      | Inr s3 \<Rightarrow>
          (Inr (Some (next_obj s)),
           if \<not> dont_cache policy parent' p s
           then (init_holder ti (next_obj s) s3)\<lparr>registered_instances :=
                  (registered_instances (init_holder ti (next_obj s) s3))
                    (value (as_instance (objs (init_holder ti (next_obj s) s3) (next_obj s)))
                       \<mapsto> next_obj s)\<rparr>
           else init_holder ti (next_obj s) s3))"
  using assms
  by (simp add: cast_ptr_def PyType_GenericAlloc_def alloc_def Let_def split: sum.splits)

text \<open>
  C1. A non-null pointer whose wrapper is in the Instance Registry, cast when the
  self-reference exception does not apply, yields the registered object with its reference
  count incremented; no object is allocated and the registry is unchanged. Hence casting
  the same pointer twice with \<^verbatim>\<open>reference\<close> or \<^verbatim>\<open>take_ownership\<close> policy yields the same
  object both times, the second call only incrementing its reference count: this also holds
  when the first of the two casts is the one that creates and registers the wrapper, for a
  registered type whose holder-initialization hook leaves the wrapped pointer alone.
\<close>

theorem cast_identity_preservation:
  "(registered_instances s (Some p) = Some inst \<and> \<not> dont_cache policy parent' p s \<longrightarrow>
      cast_ptr T registered_types (Some p) policy parent' s = (Inr (Some inst), Py_INCREF inst s) \<and>
      ob_refcnt (objs (Py_INCREF inst s) inst) = ob_refcnt (objs s inst) + 1 \<and>
      next_obj (Py_INCREF inst s) = next_obj s \<and>
      registered_instances (Py_INCREF inst s) = registered_instances s) \<and>
   ((policy = reference \<or> policy = take_ownership) \<and>
    registered_types (type_id T) = Some ti \<and>
    (\<forall>r st. value (as_instance (objs (init_holder ti r st) r)) = value (as_instance (objs st r)))
    \<longrightarrow>
      (\<exists>obj s1.
         cast_ptr T registered_types (Some p) policy parent' s = (Inr (Some obj), s1) \<and>
         cast_ptr T registered_types (Some p) policy parent' s1
           = (Inr (Some obj), Py_INCREF obj s1)))"
proof (rule conjI; rule impI)
  assume a: "registered_instances s (Some p) = Some inst \<and> \<not> dont_cache policy parent' p s"
  then show "cast_ptr T registered_types (Some p) policy parent' s
      = (Inr (Some inst), Py_INCREF inst s) \<and>
      ob_refcnt (objs (Py_INCREF inst s) inst) = ob_refcnt (objs s inst) + 1 \<and>
      next_obj (Py_INCREF inst s) = next_obj s \<and>
      registered_instances (Py_INCREF inst s) = registered_instances s"
    using cast_ptr_registered[of s p inst policy parent' T registered_types]
    by (simp add: Py_INCREF_def)
next
  assume "(policy = reference \<or> policy = take_ownership) \<and>
    registered_types (type_id T) = Some ti \<and>
    (\<forall>r st. value (as_instance (objs (init_holder ti r st) r)) = value (as_instance (objs st r)))"
  then show "\<exists>obj s1.
         cast_ptr T registered_types (Some p) policy parent' s = (Inr (Some obj), s1) \<and>
         cast_ptr T registered_types (Some p) policy parent' s1
           = (Inr (Some obj), Py_INCREF obj s1)"
    using cast_ptr_twice[of policy registered_types T ti p parent' s] by blast
qed

theorem cast_identity_preservation_witness:
  "registered_instances ex_state (Some 100) = Some 1 \<and>
   \<not> dont_cache copy None 100 ex_state \<and>
   cast_ptr ex_B ex_types (Some 100) copy None ex_state = (Inr (Some 1), Py_INCREF 1 ex_state) \<and>
   ob_refcnt (objs (Py_INCREF 1 ex_state) 1) = 2 \<and>
   ex_types (type_id ex_B) = Some ex_info_B \<and>
   (\<forall>r st. value (as_instance (objs (init_holder ex_info_B r st) r))
             = value (as_instance (objs st r))) \<and>
   fst (cast_ptr ex_B ex_types (Some 150) reference None ex_state) = Inr (Some 11) \<and>
   fst (cast_ptr ex_B ex_types (Some 150) reference None
          (snd (cast_ptr ex_B ex_types (Some 150) reference None ex_state))) = Inr (Some 11)"
proof -
  have r: "registered_instances ex_state (Some 100) = Some 1" by (simp add: ex_defs)
  have nd: "\<not> dont_cache copy None 100 ex_state" by (simp add: dont_cache_def)
  have rc: "ob_refcnt (objs ex_state 1) = 1" by (simp add: ex_defs)
  have ti: "ex_types (type_id ex_B) = Some ex_info_B" by (simp add: ex_defs)
  have hook: "\<forall>r st. value (as_instance (objs (init_holder ex_info_B r st) r))
             = value (as_instance (objs st r))" by (simp add: ex_defs)
  have first: "fst (cast_ptr ex_B ex_types (Some 150) reference None ex_state) = Inr (Some 11)"
    by (simp add: cast_ptr_def dont_cache_def ex_defs PyType_GenericAlloc_def alloc_def
      handle_return_value_policy_def handle_return_value_policy_copyable_def set_instance_def
      as_instance_def)
  have a: "cast_ptr ex_B ex_types (Some 100) copy None ex_state = (Inr (Some 1), Py_INCREF 1 ex_state) \<and>
      ob_refcnt (objs (Py_INCREF 1 ex_state) 1) = ob_refcnt (objs ex_state 1) + 1"
    using cast_identity_preservation[of ex_state 100 1 copy None ex_B ex_types ex_info_B] r nd
    by simp
  obtain obj s1 where
    b: "cast_ptr ex_B ex_types (Some 150) reference None ex_state = (Inr (Some obj), s1)"
       "cast_ptr ex_B ex_types (Some 150) reference None s1 = (Inr (Some obj), Py_INCREF obj s1)"
    using cast_identity_preservation[of ex_state 150 1 reference None ex_B ex_types ex_info_B]
      ti hook by blast
  have "obj = 11" using first b(1) by simp
  then show ?thesis using r nd rc ti hook a b by simp
qed

text \<open>
  C5, as stated, fails: \<^verbatim>\<open>cast\<close> consults the Instance Registry before it applies the
  policy, so the cast of an already wrapped value of a non-copyable type under the
  \<^verbatim>\<open>copy\<close> policy returns the registered wrapper and raises nothing.
\<close>

theorem copy_noncopyable_counterexample:
  "copy_constructor ex_N = None \<and>
   cast_ptr ex_N ex_types (Some 110) copy None ex_state = (Inr (Some 9), Py_INCREF 9 ex_state)"
  by (simp add: cast_ptr_def dont_cache_def ex_defs)

text \<open>
  C5, amended. Applying the \<^verbatim>\<open>copy\<close> policy to a type that is not copy-constructible
  throws \<^verbatim>\<open>cast_error\<close>, whatever the instance; so the cast of a native value that is not
  yet in the Instance Registry, of a registered type that is not copy-constructible, under
  the \<^verbatim>\<open>copy\<close> policy (or \<^verbatim>\<open>automatic\<close>, which a cast by reference resolves to \<^verbatim>\<open>copy\<close>)
  throws \<^verbatim>\<open>cast_error\<close>, after the wrapper has been allocated.
\<close>

theorem copy_noncopyable_raises:
  "handle_return_value_policy_noncopyable inst copy parent' s
     = Inl (cast_error ''return_value_policy = copy, but the object is non-copyable!'') \<and>
   (copy_constructor T = None \<and> registered_instances s (Some p) = None \<and>
    registered_types (type_id T) = Some ti \<and> (policy = copy \<or> policy = automatic) \<longrightarrow>
      cast_ref T registered_types p policy parent' s
        = (Inl (cast_error ''return_value_policy = copy, but the object is non-copyable!''),
           set_instance (next_obj s) \<lparr>value = Some p, owned = True, parent = None\<rparr>
             (snd (PyType_GenericAlloc (type ti) s))) \<and>
      cast_ptr T registered_types (Some p) copy parent' s
        = (Inl (cast_error ''return_value_policy = copy, but the object is non-copyable!''),
           set_instance (next_obj s) \<lparr>value = Some p, owned = True, parent = None\<rparr>
             (snd (PyType_GenericAlloc (type ti) s))))"
  by (auto simp: cast_ref_def cast_ptr_new handle_return_value_policy_def
      handle_return_value_policy_noncopyable_def)

theorem copy_noncopyable_raises_witness:
  "copy_constructor ex_N = None \<and> registered_instances ex_state (Some 120) = None \<and>
   ex_types (type_id ex_N) = Some ex_info_N \<and>
   fst (cast_ref ex_N ex_types 120 automatic None ex_state)
     = Inl (cast_error ''return_value_policy = copy, but the object is non-copyable!'')"
  using copy_noncopyable_raises[where s = ex_state and T = ex_N and p = 120
      and registered_types = ex_types and ti = ex_info_N and policy = automatic
      and parent' = None]
  by (simp add: ex_defs)

text \<open>
  C8, as stated, fails for the same reason: the cast of an already wrapped value under the
  \<^verbatim>\<open>copy\<close> policy returns the registered wrapper, whose pointer is the original; nothing is
  allocated and nothing is copied, and a write to the original, from 42 to 7, is a write to
  the wrapped value.
\<close>

theorem copy_independence_counterexample:
  "copy_constructor ex_B = Some (\<lambda>v. v) \<and>
   fst (cast_ref ex_B ex_types 100 copy None ex_state) = Inr (Some 1) \<and>
   value (as_instance (objs (snd (cast_ref ex_B ex_types 100 copy None ex_state)) 1)) = Some 100 \<and>
   brk (snd (cast_ref ex_B ex_types 100 copy None ex_state)) = brk ex_state \<and>
   next_obj (snd (cast_ref ex_B ex_types 100 copy None ex_state)) = next_obj ex_state \<and>
   mem (snd (cast_ref ex_B ex_types 100 copy None ex_state)) 100 = 42 \<and>
   mem ((snd (cast_ref ex_B ex_types 100 copy None ex_state))
          \<lparr>mem := (mem (snd (cast_ref ex_B ex_types 100 copy None ex_state)))(100 := 7)\<rparr>) 100 = 7"
  by (simp add: cast_ref_def cast_ptr_def dont_cache_def ex_defs Py_INCREF_def as_instance_def)

text \<open>
  C8, amended. The cast of a live native value that is not yet in the Instance Registry, of
  a registered copy-constructible type whose holder-initialization hook leaves the instance
  and the native heap alone, under the \<^verbatim>\<open>copy\<close> policy (or \<^verbatim>\<open>automatic\<close>, cast by
  reference) yields a new object that owns a newly allocated copy: its wrapped pointer is
  the new address, which holds the copy and is not the original's, and writing to the
  original afterwards changes neither the wrapped pointer nor the value it points to.
\<close>

theorem copy_independence:
  "copy_constructor T = Some cc \<and> registered_instances s (Some p) = None \<and>
   registered_types (type_id T) = Some ti \<and> p < brk s \<and>
   (policy = copy \<or> policy = automatic) \<and>
   (\<forall>r st. as_instance (objs (init_holder ti r st) r) = as_instance (objs st r) \<and>
            mem (init_holder ti r st) = mem st) \<longrightarrow>
   (\<exists>s'. cast_ref T registered_types p policy parent' s = (Inr (Some (next_obj s)), s') \<and>
          value (as_instance (objs s' (next_obj s))) = Some (brk s) \<and>
          owned (as_instance (objs s' (next_obj s))) \<and>
          brk s \<noteq> p \<and>
          mem s' (brk s) = cc (mem s p) \<and>
          (\<forall>v. mem (s'\<lparr>mem := (mem s')(p := v)\<rparr>) (brk s) = cc (mem s p) \<and>
               value (as_instance (objs (s'\<lparr>mem := (mem s')(p := v)\<rparr>) (next_obj s)))
                 = Some (brk s)))"
proof
  assume a: "copy_constructor T = Some cc \<and> registered_instances s (Some p) = None \<and>
   registered_types (type_id T) = Some ti \<and> p < brk s \<and>
   (policy = copy \<or> policy = automatic) \<and>
   (\<forall>r st. as_instance (objs (init_holder ti r st) r) = as_instance (objs st r) \<and>
            mem (init_holder ti r st) = mem st)"
  let ?inst = "next_obj s"
  define s2 where "s2 = set_instance ?inst \<lparr>value = Some p, owned = True, parent = None\<rparr>
             (snd (PyType_GenericAlloc (type ti) s))"
  define s3 where "s3 = handle_return_value_policy_copyable cc ?inst copy parent' s2"
  have i3: "as_instance (objs s3 ?inst) = \<lparr>value = Some (brk s), owned = True, parent = None\<rparr>"
    and m3: "mem s3 = (mem s)(brk s := cc (mem s p))"
    by (simp_all add: s3_def s2_def handle_return_value_policy_copyable_def set_instance_def
        PyType_GenericAlloc_def alloc_def as_instance_def new_T_def)
  define s4 where "s4 = init_holder ti ?inst s3"
  have i4: "as_instance (objs s4 ?inst) = \<lparr>value = Some (brk s), owned = True, parent = None\<rparr>"
    and m4: "mem s4 = (mem s)(brk s := cc (mem s p))"
    using a i3 m3 by (simp_all add: s4_def)
  define s5 where "s5 = s4\<lparr>registered_instances :=
      (registered_instances s4)(value (as_instance (objs s4 ?inst)) \<mapsto> ?inst)\<rparr>"
  have nd: "\<not> dont_cache copy parent' p s" by (simp add: dont_cache_def)
  have c: "cast_ref T registered_types p policy parent' s = (Inr (Some ?inst), s5)"
    using a nd
    by (auto simp: cast_ref_def cast_ptr_new handle_return_value_policy_def
        s2_def[symmetric] s3_def[symmetric] s4_def[symmetric] s5_def i3 i4)
  have "value (as_instance (objs s5 ?inst)) = Some (brk s)"
    "owned (as_instance (objs s5 ?inst))" "mem s5 = (mem s)(brk s := cc (mem s p))"
    using i4 m4 by (simp_all add: s5_def)
  then show "\<exists>s'. cast_ref T registered_types p policy parent' s = (Inr (Some (next_obj s)), s') \<and>
          value (as_instance (objs s' (next_obj s))) = Some (brk s) \<and>
          owned (as_instance (objs s' (next_obj s))) \<and>
          brk s \<noteq> p \<and>
          mem s' (brk s) = cc (mem s p) \<and>
          (\<forall>v. mem (s'\<lparr>mem := (mem s')(p := v)\<rparr>) (brk s) = cc (mem s p) \<and>
               value (as_instance (objs (s'\<lparr>mem := (mem s')(p := v)\<rparr>) (next_obj s)))
                 = Some (brk s))"
    using c a by (intro exI[of _ s5]) auto
qed

theorem copy_independence_witness:
  "copy_constructor ex_B = Some (\<lambda>v. v) \<and> registered_instances ex_state (Some 120) = None \<and>
   ex_types (type_id ex_B) = Some ex_info_B \<and> 120 < brk ex_state \<and>
   (\<forall>r st. as_instance (objs (init_holder ex_info_B r st) r) = as_instance (objs st r) \<and>
            mem (init_holder ex_info_B r st) = mem st) \<and>
   fst (cast_ref ex_B ex_types 120 copy None ex_state) = Inr (Some 11) \<and>
   value (as_instance (objs (snd (cast_ref ex_B ex_types 120 copy None ex_state)) 11)) = Some 200 \<and>
   mem ((snd (cast_ref ex_B ex_types 120 copy None ex_state))
          \<lparr>mem := (mem (snd (cast_ref ex_B ex_types 120 copy None ex_state)))(120 := 7)\<rparr>) 200 = 6"
proof -
  have h: "copy_constructor ex_B = Some (\<lambda>v. v) \<and> registered_instances ex_state (Some 120) = None \<and>
   ex_types (type_id ex_B) = Some ex_info_B \<and> 120 < brk ex_state \<and>
   (\<forall>r st. as_instance (objs (init_holder ex_info_B r st) r) = as_instance (objs st r) \<and>
            mem (init_holder ex_info_B r st) = mem st)"
    by (simp add: ex_defs)
  obtain s' where s': "cast_ref ex_B ex_types 120 copy None ex_state = (Inr (Some (next_obj ex_state)), s')"
    "value (as_instance (objs s' (next_obj ex_state))) = Some (brk ex_state)"
    "\<forall>v. mem (s'\<lparr>mem := (mem s')(120 := v)\<rparr>) (brk ex_state) = (\<lambda>v. v) (mem ex_state 120)"
    using copy_independence[of ex_B "\<lambda>v. v" ex_state 120 ex_types ex_info_B copy None] h by auto
  have "next_obj ex_state = 11" "brk ex_state = 200" "mem ex_state 120 = 6" by (simp_all add: ex_defs)
  then show ?thesis using h s' by simp
qed

section \<open>The character caster\<close>

text \<open>
  C9, as stated, fails: \<^verbatim>\<open>load\<close> has no check of the length, and the string \<^verbatim>\<open>"ab"\<close> of
  two elements loads; the character it yields is the first byte.
\<close>

theorem char_load_counterexample:
  "ob_val (objs ex_state 8) = PyUnicode [97, 98] \<and>
   char_load None (Some 8) True ex_state = ((True, Some [97, 98]), ex_state) \<and>
   operator_char (Some [97, 98]) = 97"
  by (simp add: char_load_def PyUnicode_AsUTF8_def utf8_encode_cp_def operator_char_def ex_defs)

text \<open>
  C9, amended. For a dynamic string value, \<^verbatim>\<open>load\<close> succeeds exactly when the string has
  a UTF-8 encoding, whatever its length, and the caster then holds the encoded C string;
  the native character is the first byte of that encoding (the terminating NUL for the
  empty string), which for a string of one element below U+0080 is that element. A string
  without encoding is a load failure, and the error indicator is cleared.
\<close>

theorem char_load_contract:
  "ob_val (objs s r) = PyUnicode cps \<longrightarrow>
     (fst (fst (char_load this (Some r) convert s)) \<longleftrightarrow> utf8_encode cps \<noteq> None) \<and>
     (\<forall>bs. utf8_encode cps = Some bs \<longrightarrow>
        char_load this (Some r) convert s = ((True, Some bs), s) \<and>
        operator_char (Some bs) = (case bs of [] \<Rightarrow> 0 | b # rest \<Rightarrow> b)) \<and>
     (\<forall>c. cps = [c] \<and> c < 128 \<longrightarrow>
        char_load this (Some r) convert s = ((True, Some [of_nat c]), s) \<and>
        operator_char (Some [of_nat c]) = of_nat c) \<and>
     (utf8_encode cps = None \<longrightarrow>
        fst (char_load this (Some r) convert s) = (False, this) \<and>
        error_indicator (snd (char_load this (Some r) convert s)) = None)"
proof
  assume u: "ob_val (objs s r) = PyUnicode cps"
  show "(fst (fst (char_load this (Some r) convert s)) \<longleftrightarrow> utf8_encode cps \<noteq> None) \<and>
     (\<forall>bs. utf8_encode cps = Some bs \<longrightarrow>
        char_load this (Some r) convert s = ((True, Some bs), s) \<and>
        operator_char (Some bs) = (case bs of [] \<Rightarrow> 0 | b # rest \<Rightarrow> b)) \<and>
     (\<forall>c. cps = [c] \<and> c < 128 \<longrightarrow>
        char_load this (Some r) convert s = ((True, Some [of_nat c]), s) \<and>
        operator_char (Some [of_nat c]) = of_nat c) \<and>
     (utf8_encode cps = None \<longrightarrow>
        fst (char_load this (Some r) convert s) = (False, this) \<and>
        error_indicator (snd (char_load this (Some r) convert s)) = None)"
  proof (cases "utf8_encode cps")
    case None
    then have "char_load this (Some r) convert s =
        ((False, this), PyErr_Clear (PyErr_SetString PyExc_UnicodeEncodeError
                                       ''surrogates not allowed'' s))"
      using u by (simp add: char_load_def PyUnicode_AsUTF8_def)
    moreover have "\<forall>c. \<not> (cps = [c] \<and> c < 128)"
      using None by (auto simp: utf8_encode_cp_def)
    ultimately show ?thesis using None by (simp add: PyErr_Clear_def)
  next
    case (Some bs)
    then have l: "char_load this (Some r) convert s = ((True, Some bs), s)"
      using u by (simp add: char_load_def PyUnicode_AsUTF8_def)
    have "bs = [of_nat c]" if "cps = [c] \<and> c < 128" for c
      using that Some by (simp add: utf8_encode_cp_def)
    then show ?thesis using l Some
      by (auto simp: operator_char_def split: list.splits)
  qed
qed

theorem char_load_contract_witness:
  "ob_val (objs ex_state 3) = PyUnicode [120] \<and> utf8_encode [120] = Some [120] \<and> (120::nat) < 128 \<and>
   char_load None (Some 3) True ex_state = ((True, Some [120]), ex_state) \<and>
   operator_char (Some [120]) = 120"
proof -
  have h: "ob_val (objs ex_state 3) = PyUnicode [120]" by (simp add: ex_defs)
  have e: "utf8_encode [120] = Some [120]" by (simp add: utf8_encode_cp_def)
  show ?thesis using char_load_contract[of ex_state 3 "[120]" None True] h e by simp
qed

section \<open>The sequence caster\<close>

lemma vector_load_loop_trace:
  assumes kn: "k < n" and lcs: "length cs = k" and lss: "length ss = k + 1"
    and trace: "\<forall>j<k. \<exists>item s0. PyList_GetItem src j (ss ! j) = (item, s0) \<and>
                  conv_load vc (conv_fresh vc) item convert s0 = ((True, cs ! j), ss ! (j + 1))"
    and g: "PyList_GetItem src k (ss ! k) = (item, s0)"
    and f: "conv_load vc (conv_fresh vc) item convert s0 = ((False, c), s2)"
  shows "i \<le> k \<Longrightarrow>
         vector_load_loop vc src convert n i val (ss ! i)
           = ((False, val @ map (conv_value vc) (drop i cs)), s2)"
proof (induction "k - i" arbitrary: i val)
  case 0
  then have "i = k" by simp
  then show ?case using kn lcs g f
    by (simp add: vector_load_loop.simps[of vc src convert n k])
next
  case (Suc d)
  then have lt: "i < k" by simp
  obtain it st where gi: "PyList_GetItem src i (ss ! i) = (it, st)"
    and li: "conv_load vc (conv_fresh vc) it convert st = ((True, cs ! i), ss ! (i + 1))"
    using trace lt by blast
  have d: "d = k - (i + 1)" using Suc.hyps(2) by simp
  have "vector_load_loop vc src convert n (i + 1) (val @ [conv_value vc (cs ! i)]) (ss ! (i + 1))
          = ((False, (val @ [conv_value vc (cs ! i)]) @ map (conv_value vc) (drop (i + 1) cs)), s2)"
    using Suc.hyps(1)[OF d] lt by simp
  moreover have "cs ! i # drop (i + 1) cs = drop i cs"
    using lt lcs by (simp add: Cons_nth_drop_Suc)
  then have "conv_value vc (cs ! i) # map (conv_value vc) (drop (i + 1) cs)
               = map (conv_value vc) (drop i cs)"
    by (metis list.simps(9))
  ultimately show ?case using lt kn gi li
    by (simp add: vector_load_loop.simps[of vc src convert n i])
qed

lemma int32_of_minus_one: "(ucast (- 1 :: 64 word) :: 32 word) = - 1"
  by (rule bit_word_eqI) (auto simp: bit_simps)

text \<open>
  C3, as stated, fails in one part: a partial result is committed. \<^verbatim>\<open>load\<close> fills the
  caster's member \<^verbatim>\<open>value\<close>, the vector that \<^verbatim>\<open>operator type&()\<close> gives out, element by
  element; loading the list \<^verbatim>\<open>[1, "x", 3]\<close> into a new \<^verbatim>\<open>vector<int32_t>\<close> caster returns
  false and leaves the vector \<^verbatim>\<open>[1]\<close> in it.
\<close>

theorem vector_load_counterexample:
  "ob_val (objs ex_state 5) = PyList [Some 2, Some 3, Some 4] \<and>
   ob_val (objs ex_state 2) = PyLong 1 \<and> ob_val (objs ex_state 3) = PyUnicode [120] \<and>
   ob_val (objs ex_state 4) = PyLong 3 \<and>
   vector_load int32_conv [] (Some 5) True ex_state = ((False, [1]), ex_state)"
  by (simp add: vector_load_def vector_load_loop.simps int32_conv_def PyList_Check_def
      PyList_GET_SIZE_def PyList_GetItem_def int32_load_def PyLong_AsLong_def PyErr_Occurred_def
      PyErr_SetString_def PyErr_Clear_def ex_defs Let_def int32_of_minus_one)

text \<open>
  C3, amended. \<^verbatim>\<open>load\<close> returns false, caster and state unchanged, when the dynamic value
  is not a list. Otherwise it returns false as soon as an element fails. Let the element
  loads of the positions before \<open>k\<close> succeed one after the other, position \<open>j\<close> on the
  item \<^verbatim>\<open>PyList_GetItem\<close> gives in the state \<open>ss ! j\<close>, leaving the element caster \<open>cs ! j\<close>
  and the state \<open>ss ! (j + 1)\<close>, and let the element load of position \<open>k\<close> fail, leaving
  the state \<open>s2\<close>. Then \<^verbatim>\<open>load\<close> returns false in the state \<open>s2\<close>, so no later element
  is attempted, and the caster's vector holds exactly the values of the element casters
  before \<open>k\<close>. The conversion \<^verbatim>\<open>pybind::cast\<close> delivers no vector after a failed \<^verbatim>\<open>load\<close>: it
  raises \<^verbatim>\<open>cast_error\<close>.
\<close>

theorem vector_load_all_or_nothing:
  "(\<not> PyList_Check s (Some r) \<longrightarrow>
      vector_load vc this (Some r) convert s = ((False, this), s) \<and>
      pybind_cast (vector_conv vc) (Some r) s
        = (Inl (cast_error ''Unable to cast Python object to C++ type''), s)) \<and>
   (PyList_Check s (Some r) \<and> k < PyList_GET_SIZE s (Some r) \<and>
    length cs = k \<and> length ss = k + 1 \<and> ss ! 0 = s \<and>
    (\<forall>j<k. \<exists>item s0.
       PyList_GetItem (Some r) j (ss ! j) = (item, s0) \<and>
       conv_load vc (conv_fresh vc) item convert s0 = ((True, cs ! j), ss ! (j + 1))) \<and>
    PyList_GetItem (Some r) k (ss ! k) = (item, s0) \<and>
    conv_load vc (conv_fresh vc) item convert s0 = ((False, c), s2) \<longrightarrow>
      vector_load vc this (Some r) convert s = ((False, map (conv_value vc) cs), s2) \<and>
      (convert \<longrightarrow>
         pybind_cast (vector_conv vc) (Some r) s
           = (Inl (cast_error ''Unable to cast Python object to C++ type''), s2)))"
proof (rule conjI; rule impI)
  assume "\<not> PyList_Check s (Some r)"
  then show "vector_load vc this (Some r) convert s = ((False, this), s) \<and>
      pybind_cast (vector_conv vc) (Some r) s
        = (Inl (cast_error ''Unable to cast Python object to C++ type''), s)"
    by (simp add: vector_load_def pybind_cast_def vector_conv_def)
next
  assume a: "PyList_Check s (Some r) \<and> k < PyList_GET_SIZE s (Some r) \<and>
    length cs = k \<and> length ss = k + 1 \<and> ss ! 0 = s \<and>
    (\<forall>j<k. \<exists>item s0.
       PyList_GetItem (Some r) j (ss ! j) = (item, s0) \<and>
       conv_load vc (conv_fresh vc) item convert s0 = ((True, cs ! j), ss ! (j + 1))) \<and>
    PyList_GetItem (Some r) k (ss ! k) = (item, s0) \<and>
    conv_load vc (conv_fresh vc) item convert s0 = ((False, c), s2)"
  have loop: "vector_load_loop vc (Some r) convert (PyList_GET_SIZE s (Some r)) 0 [] (ss ! 0)
          = ((False, [] @ map (conv_value vc) (drop 0 cs)), s2)"
    using a by (intro vector_load_loop_trace[where k = k and item = item and ?s0.0 = s0 and c = c])
      auto
  then have l: "vector_load vc t (Some r) convert s = ((False, map (conv_value vc) cs), s2)" for t
    using a by (simp add: vector_load_def)
  then show "vector_load vc this (Some r) convert s = ((False, map (conv_value vc) cs), s2) \<and>
      (convert \<longrightarrow>
         pybind_cast (vector_conv vc) (Some r) s
           = (Inl (cast_error ''Unable to cast Python object to C++ type''), s2))"
    using l[of "[]"] by (auto simp: pybind_cast_def vector_conv_def)
qed

theorem vector_load_all_or_nothing_witness:
  "\<not> PyList_Check ex_state (Some 6) \<and>
   vector_load int32_conv [] (Some 6) True ex_state = ((False, []), ex_state) \<and>
   PyList_Check ex_state (Some 5) \<and> 1 < PyList_GET_SIZE ex_state (Some 5) \<and>
   length [1 :: 32 word] = 1 \<and> length [ex_state, ex_state] = 1 + 1 \<and>
   [ex_state, ex_state] ! 0 = ex_state \<and>
   PyList_GetItem (Some 5) 0 ([ex_state, ex_state] ! 0) = (Some 2, ex_state) \<and>
   conv_load int32_conv (conv_fresh (int32_conv :: (32 word, 32 word, nat) value_conv))
     (Some 2) True ex_state = ((True, [1] ! 0), [ex_state, ex_state] ! (0 + 1)) \<and>
   PyList_GetItem (Some 5) 1 ([ex_state, ex_state] ! 1) = (Some 3, ex_state) \<and>
   conv_load int32_conv (conv_fresh (int32_conv :: (32 word, 32 word, nat) value_conv))
     (Some 3) True ex_state = ((False, - 1), ex_state) \<and>
   vector_load int32_conv [] (Some 5) True ex_state = ((False, [1]), ex_state) \<and>
   pybind_cast (vector_conv int32_conv) (Some 5) ex_state
     = (Inl (cast_error ''Unable to cast Python object to C++ type''), ex_state)"
proof -
  have h1: "\<not> PyList_Check ex_state (Some 6)" "PyList_Check ex_state (Some 5)"
    "1 < PyList_GET_SIZE ex_state (Some 5)"
    by (simp_all add: PyList_Check_def PyList_GET_SIZE_def ex_defs)
  have h2: "PyList_GetItem (Some 5) 1 ([ex_state, ex_state] ! 1) = (Some 3, ex_state)"
    by (simp add: PyList_GetItem_def ex_defs)
  have h3: "conv_load int32_conv (conv_fresh (int32_conv :: (32 word, 32 word, nat) value_conv))
     (Some 3) True ex_state = ((False, - 1), ex_state)"
    by (simp add: int32_conv_def int32_load_def PyLong_AsLong_def PyErr_Occurred_def
      PyErr_SetString_def PyErr_Clear_def ex_defs Let_def int32_of_minus_one)
  have h4: "\<forall>j<1. \<exists>item s0.
       PyList_GetItem (Some 5) j ([ex_state, ex_state] ! j) = (item, s0) \<and>
       conv_load int32_conv (conv_fresh (int32_conv :: (32 word, 32 word, nat) value_conv))
         item True s0 = ((True, [1] ! j), [ex_state, ex_state] ! (j + 1))"
    by (simp add: PyList_GetItem_def int32_conv_def int32_load_def PyLong_AsLong_def
        PyErr_Occurred_def ex_defs Let_def)
  note t = vector_load_all_or_nothing[where s = ex_state and vc = int32_conv
        and this = "[]" and convert = True and k = 1 and cs = "[1]"
        and ss = "[ex_state, ex_state]" and item = "Some 3" and ?s0.0 = ex_state
        and c = "- 1" and ?s2.0 = ex_state]
  have a: "vector_load int32_conv [] (Some 6) True ex_state = ((False, []), ex_state)"
    using h1(1) t[where r = 6] by simp
  have b: "vector_load int32_conv [] (Some 5) True ex_state = ((False, [1]), ex_state) \<and>
     pybind_cast (vector_conv int32_conv) (Some 5) ex_state
     = (Inl (cast_error ''Unable to cast Python object to C++ type''), ex_state)"
    using h1 h2 h3 h4 t[where r = 5] by (simp add: int32_conv_def)
  have h5: "PyList_GetItem (Some 5) 0 ([ex_state, ex_state] ! 0) = (Some 2, ex_state)"
    "conv_load int32_conv (conv_fresh (int32_conv :: (32 word, 32 word, nat) value_conv))
       (Some 2) True ex_state = ((True, [1] ! 0), [ex_state, ex_state] ! (0 + 1))"
    by (simp_all add: PyList_GetItem_def int32_conv_def int32_load_def PyLong_AsLong_def
        PyErr_Occurred_def ex_defs Let_def)
  show ?thesis using h1 h2 h3 h5 a b by simp
qed

text \<open>
  C6, as stated, fails: not every element type that has a caster round-trips. The vector
  of the one character 0xE9 is cast to a list of one string, the code point U+00E9, and
  loads as the vector of the byte 0xC3, the first byte of that string's UTF-8 encoding.
\<close>

theorem vector_roundtrip_counterexample:
  "fst (vector_cast char_conv [0xE9] automatic None ex_state) = Inr (Some 11) \<and>
   fst (vector_load char_conv [] (Some 11) True
          (snd (vector_cast char_conv [0xE9] automatic None ex_state))) = (True, [0xC3])"
  by (simp add: vector_cast_def vector_load_def vector_load_loop.simps char_conv_def
      char_cast_def char_load_def operator_char_def PyList_New_def PyList_SetItem_def
      PyList_Check_def PyList_GET_SIZE_def PyList_GetItem_def PyUnicode_DecodeLatin1_def
      PyUnicode_AsUTF8_def utf8_encode_cp_def alloc_def Py_XDECREF_def ex_defs)

lemma vector_load_loop_holds:
  assumes fl: "flat_load vc enc"
    and holds: "list_holds s l (map (\<lambda>x. snd (enc x)) xs) (length xs)"
    and err: "error_indicator s = None"
  shows "i \<le> length xs \<Longrightarrow>
         vector_load_loop vc (Some l) convert (length xs) i val s
           = ((True, val @ drop i xs), s)"
proof (induction "length xs - i" arbitrary: i val)
  case 0
  then have "i = length xs" by simp
  then show ?case by (simp add: vector_load_loop.simps[of _ _ _ "length xs" "length xs"])
next
  case (Suc d)
  then have lt: "i < length xs" by simp
  obtain items where items: "ob_val (objs s l) = PyList items" "length items = length xs"
    and el: "\<forall>i<length xs. \<exists>r. items ! i = Some r \<and> r < next_obj s \<and> r \<noteq> l \<and>
               ob_val (objs s r) = snd (enc (xs ! i))"
    using holds unfolding list_holds_def by auto
  obtain r where r: "items ! i = Some r" "ob_val (objs s r) = snd (enc (xs ! i))"
    using el lt by blast
  have g: "PyList_GetItem (Some l) i s = (Some r, s)"
    using items lt r by (simp add: PyList_GetItem_def)
  obtain c' where ld: "conv_load vc (conv_fresh vc) (Some r) convert s = ((True, c'), s)"
    and v: "conv_value vc c' = xs ! i"
    using fl r(2) err unfolding flat_load_def by blast
  have d: "d = length xs - (i + 1)" using Suc.hyps(2) by simp
  have "vector_load_loop vc (Some l) convert (length xs) (i + 1) (val @ [xs ! i]) s
          = ((True, (val @ [xs ! i]) @ drop (i + 1) xs), s)"
    using Suc.hyps(1)[OF d] lt by simp
  moreover have "xs ! i # drop (i + 1) xs = drop i xs" using lt by (simp add: Cons_nth_drop_Suc)
  ultimately show ?case using lt g ld v
    by (simp add: vector_load_loop.simps[of _ _ _ "length xs" i])
qed

lemma vector_load_holds:
  assumes "flat_load vc enc" and "list_holds s l (map (\<lambda>x. snd (enc x)) xs) (length xs)"
    and "error_indicator s = None"
  shows "vector_load vc this (Some l) convert s = ((True, xs), s)"
proof -
  obtain items where "ob_val (objs s l) = PyList items" "length items = length xs"
    using assms(2) unfolding list_holds_def by auto
  then have "PyList_Check s (Some l)" "PyList_GET_SIZE s (Some l) = length xs"
    by (simp_all add: PyList_Check_def PyList_GET_SIZE_def)
  then show ?thesis using vector_load_loop_holds[OF assms, of 0 convert "[]"]
    by (simp add: vector_load_def)
qed

lemma ob_val_Py_XDECREF: "ob_val (objs (Py_XDECREF r s) x) = ob_val (objs s x)"
  by (simp add: Py_XDECREF_def Py_DECREF_def split: option.splits)

lemma next_obj_Py_XDECREF: "next_obj (Py_XDECREF r s) = next_obj s"
  by (simp add: Py_XDECREF_def Py_DECREF_def split: option.splits)

lemma error_Py_XDECREF: "error_indicator (Py_XDECREF r s) = error_indicator s"
  by (simp add: Py_XDECREF_def Py_DECREF_def split: option.splits)

lemma flat_cast_step:
  assumes fc: "flat_cast vc enc" and inv: "list_holds s l vals n" and len: "length vals < n"
  shows "\<exists>s1. conv_cast vc x policy parent' s = (Inr (Some (next_obj s)), s1) \<and>
           list_holds (PyList_SetItem l (length vals) (Some (next_obj s)) s1) l
             (vals @ [snd (enc x)]) n \<and>
           error_indicator (PyList_SetItem l (length vals) (Some (next_obj s)) s1)
             = error_indicator s"
proof -
  obtain items where items: "ob_val (objs s l) = PyList items" "length items = n" "l < next_obj s"
    and el: "\<forall>i<length vals. \<exists>r. items ! i = Some r \<and> r < next_obj s \<and> r \<noteq> l \<and>
             ob_val (objs s r) = vals ! i"
    using inv unfolding list_holds_def by blast
  let ?r = "next_obj s"
  define s1 where "s1 = s\<lparr>objs := (objs s)(?r := \<lparr>ob_refcnt = 1, ob_type = fst (enc x),
                 ob_val = snd (enc x)\<rparr>), next_obj := ?r + 1\<rparr>"
  have c: "conv_cast vc x policy parent' s = (Inr (Some ?r), s1)"
    using fc unfolding flat_cast_def by (simp add: s1_def alloc_def)
  let ?s2 = "PyList_SetItem l (length vals) (Some ?r) s1"
  have l1: "ob_val (objs s1 l) = PyList items" using items by (simp add: s1_def)
  have v2: "ob_val (objs ?s2 y) =
        (if y = l then PyList (items[length vals := Some ?r]) else ob_val (objs s1 y))" for y
    using l1 len items(2) by (simp add: PyList_SetItem_def ob_val_Py_XDECREF)
  have n2: "next_obj ?s2 = ?r + 1"
    using l1 len items(2) by (simp add: PyList_SetItem_def next_obj_Py_XDECREF) (simp add: s1_def)
  have e2: "error_indicator ?s2 = error_indicator s"
    using l1 len items(2) by (simp add: PyList_SetItem_def error_Py_XDECREF) (simp add: s1_def)
  have "\<exists>r. (items[length vals := Some ?r]) ! i = Some r \<and> r < ?r + 1 \<and> r \<noteq> l \<and>
             ob_val (objs ?s2 r) = (vals @ [snd (enc x)]) ! i" if "i < length vals + 1" for i
  proof (cases "i = length vals")
    case True
    have "ob_val (objs s1 ?r) = snd (enc x)" by (simp add: s1_def)
    then show ?thesis using True len items by (simp add: v2)
  next
    case False
    then have lt: "i < length vals" using that by simp
    then obtain r where r: "items ! i = Some r" "r < ?r" "r \<noteq> l"
        "ob_val (objs s r) = vals ! i" using el by blast
    then have "ob_val (objs s1 r) = vals ! i" by (simp add: s1_def)
    then show ?thesis using False lt r by (simp add: v2 nth_append)
  qed
  then have "list_holds ?s2 l (vals @ [snd (enc x)]) n"
    unfolding list_holds_def using items len by (auto simp: v2 n2)
  then show ?thesis using c e2 by blast
qed

lemma vector_cast_loop_holds:
  "flat_cast vc enc \<Longrightarrow> list_holds s l (map (\<lambda>x. snd (enc x)) done) n \<Longrightarrow>
   length done + length rest = n \<Longrightarrow>
   \<exists>s'. vector_cast_loop vc l (length done) rest policy parent' s = (Inr (Some l), s') \<and>
        list_holds s' l (map (\<lambda>x. snd (enc x)) (done @ rest)) n \<and>
        error_indicator s' = error_indicator s"
proof (induction rest arbitrary: s "done")
  case Nil
  then show ?case by simp
next
  case (Cons x rest)
  then have len: "length (map (\<lambda>x. snd (enc x)) done) < n" by simp
  from flat_cast_step[OF Cons.prems(1) Cons.prems(2) len, of x policy parent'] obtain s1 where
    c: "conv_cast vc x policy parent' s = (Inr (Some (next_obj s)), s1)"
    and inv: "list_holds (PyList_SetItem l (length done) (Some (next_obj s)) s1) l
                (map (\<lambda>x. snd (enc x)) (done @ [x])) n"
    and e: "error_indicator (PyList_SetItem l (length done) (Some (next_obj s)) s1)
             = error_indicator s"
    by auto
  have "length (done @ [x]) + length rest = n" using Cons.prems(3) by simp
  from Cons.IH[OF Cons.prems(1) inv this] obtain s' where
    "vector_cast_loop vc l (length (done @ [x])) rest policy parent'
       (PyList_SetItem l (length done) (Some (next_obj s)) s1) = (Inr (Some l), s')"
    "list_holds s' l (map (\<lambda>x. snd (enc x)) ((done @ [x]) @ rest)) n"
    "error_indicator s' = error_indicator (PyList_SetItem l (length done) (Some (next_obj s)) s1)"
    by blast
  then show ?case using c e by simp
qed

lemma vector_roundtrip_flat:
  "flat_cast vc enc \<and> flat_load vc enc \<and> error_indicator s = None \<longrightarrow>
   (\<exists>l s1. vector_cast vc xs policy parent' s = (Inr (Some l), s1) \<and>
           vector_load vc this (Some l) convert s1 = ((True, xs), s1))"
proof
  assume a: "flat_cast vc enc \<and> flat_load vc enc \<and> error_indicator s = None"
  obtain l s0 where new: "PyList_New (length xs) s = (l, s0)" by (cases "PyList_New (length xs) s")
  have inv: "list_holds s0 l (map (\<lambda>x. snd (enc x)) []) (length xs)"
    using new by (auto simp: list_holds_def PyList_New_def alloc_def)
  have e0: "error_indicator s0 = None" using a new by (auto simp: PyList_New_def alloc_def)
  from vector_cast_loop_holds[of vc enc s0 l "[]" "length xs" xs policy parent'] a inv
  obtain s1 where
    s1: "vector_cast_loop vc l 0 xs policy parent' s0 = (Inr (Some l), s1)"
      "list_holds s1 l (map (\<lambda>x. snd (enc x)) xs) (length xs)"
      "error_indicator s1 = error_indicator s0"
    by auto
  have "vector_cast vc xs policy parent' s = (Inr (Some l), s1)"
    using new s1(1) by (simp add: vector_cast_def)
  moreover have "vector_load vc this (Some l) convert s1 = ((True, xs), s1)"
    using vector_load_holds[of vc enc s1 l xs this convert] a s1(2,3) e0 by simp
  ultimately show "\<exists>l s1. vector_cast vc xs policy parent' s = (Inr (Some l), s1) \<and>
           vector_load vc this (Some l) convert s1 = ((True, xs), s1)" by blast
qed

lemma int32_of_long: "(ucast (scast (x :: 32 word) :: 64 word) :: 32 word) = x"
proof -
  have "(ucast :: 64 word \<Rightarrow> 32 word) = scast"
    by (rule down_cast_same) (simp add: is_down)
  moreover have "(scast (scast x :: 64 word) :: 32 word) = x"
    by (rule scast_up_scast_id) (simp add: is_up)
  ultimately show ?thesis by simp
qed

lemma sint32_in_long: "- (2 ^ 63) \<le> sint (x :: 32 word) \<and> sint x < 2 ^ 63"
  using sint_ge[of x] sint_lt[of x] by simp

lemma long_of_int32: "sint (scast (x :: 32 word) :: 64 word) = sint x"
  by (rule sint_up_scast) (simp add: is_up)

lemma int32_flat_cast: "flat_cast int32_conv (\<lambda>x. (PyLong_Type, PyLong (sint x)))"
  by (simp add: flat_cast_def int32_conv_def int32_cast_def PyLong_FromLong_def alloc_def
      long_of_int32)

lemma int32_flat_load: "flat_load int32_conv (\<lambda>x. (PyLong_Type, PyLong (sint x)))"
  unfolding flat_load_def
proof (intro allI impI)
  fix x :: "32 word" and c :: "32 word" and r convert and s :: "'a state"
  assume a: "ob_val (objs s r) = snd (PyLong_Type, PyLong (sint x)) \<and> error_indicator s = None"
  then have "int32_load c (Some r) convert s = ((True, x), s)"
    using sint32_in_long[of x]
    by (simp add: int32_load_def PyLong_AsLong_def int32_of_long PyErr_Occurred_def)
  then show "\<exists>c'. conv_load int32_conv c (Some r) convert s = ((True, c'), s) \<and>
                 conv_value int32_conv c' = x"
    by (simp add: int32_conv_def)
qed

text \<open>
  C6, amended. For every finite native sequence whose element caster is flat (its
  \<^verbatim>\<open>cast\<close> makes one new dynamic object for a value, which its \<^verbatim>\<open>load\<close> reads back as that
  value), with no error pending in the host, \<^verbatim>\<open>cast\<close> produces a list, and \<^verbatim>\<open>load\<close> on that
  list succeeds with a sequence equal to the original, leaving the state as the cast left
  it. The caster of \<^verbatim>\<open>int32_t\<close> is flat: every \<^verbatim>\<open>vector<int32_t>\<close> round-trips.
\<close>

theorem vector_roundtrip:
  "(flat_cast vc enc \<and> flat_load vc enc \<and> error_indicator s = None \<longrightarrow>
    (\<exists>l s1. vector_cast vc xs policy parent' s = (Inr (Some l), s1) \<and>
            vector_load vc this (Some l) convert s1 = ((True, xs), s1))) \<and>
   (error_indicator s' = None \<longrightarrow>
    (\<exists>l s1. vector_cast int32_conv ys policy parent' s' = (Inr (Some l), s1) \<and>
            vector_load int32_conv this' (Some l) convert s1 = ((True, ys), s1)))"
  using vector_roundtrip_flat[of vc enc s xs policy parent' this convert]
    vector_roundtrip_flat[of int32_conv "\<lambda>x. (PyLong_Type, PyLong (sint x))" s' ys policy parent'
      this' convert]
    int32_flat_cast int32_flat_load
  by blast

theorem vector_roundtrip_witness:
  "flat_cast (int32_conv :: (32 word, 32 word, nat) value_conv)
     (\<lambda>x. (PyLong_Type, PyLong (sint x))) \<and>
   flat_load (int32_conv :: (32 word, 32 word, nat) value_conv)
     (\<lambda>x. (PyLong_Type, PyLong (sint x))) \<and>
   error_indicator ex_state = None \<and>
   fst (vector_cast int32_conv [1, - 1, 3] automatic None ex_state) = Inr (Some 11) \<and>
   fst (vector_load int32_conv [] (Some 11) True
          (snd (vector_cast int32_conv [1, - 1, 3] automatic None ex_state)))
     = (True, [1, - 1, 3])"
proof -
  have e: "error_indicator ex_state = None" by (simp add: ex_state_def)
  obtain l s1 where r:
    "vector_cast int32_conv [1, - 1, 3] automatic None ex_state = (Inr (Some l), s1)"
    "vector_load int32_conv [] (Some l) True s1 = ((True, [1, - 1, 3]), s1)"
    using vector_roundtrip[where vc = int32_conv and enc = "\<lambda>x. (PyLong_Type, PyLong (sint x))"
        and s = ex_state and xs = "[1, - 1, 3]" and policy = automatic and parent' = None
        and this = "[]" and convert = True and s' = ex_state and ys = "[]" and this' = "[]"]
      e int32_flat_cast int32_flat_load
    by blast
  have "fst (vector_cast int32_conv [1, - 1, 3] automatic None ex_state) = Inr (Some 11)"
    by (simp add: vector_cast_def PyList_New_def alloc_def ex_state_def int32_conv_def
        int32_cast_def PyLong_FromLong_def PyList_SetItem_def Py_XDECREF_def)
  then show ?thesis using e r int32_flat_cast int32_flat_load by simp
qed

section \<open>The tuple caster\<close>

lemma tuple_load_elements_append:
  "tuple_load_elements (xs @ ys) src i convert s =
     (case tuple_load_elements xs src i convert s of
        ((rs1, xs'), s1) \<Rightarrow>
          (case tuple_load_elements ys src (i + length xs) convert s1 of
             ((rs2, ys'), s2) \<Rightarrow> ((rs1 @ rs2, xs' @ ys'), s2)))"
proof (induction xs arbitrary: i s)
  case Nil
  then show ?case by (simp split: prod.splits)
next
  case (Cons x xs)
  obtain ld c where x: "x = (ld, c)" by (cases x)
  show ?case using Cons.IH by (simp add: x split: prod.splits)
qed

lemma tuple_load_elements_trace:
  assumes lt: "length this = n" and lbs: "length bs = n" and lcs: "length cs = n"
    and lss: "length ss = n + 1"
    and trace: "\<forall>j<n. \<exists>item s0. PyTuple_GetItem src j (ss ! j) = (item, s0) \<and>
                  fst (this ! j) (snd (this ! j)) item convert s0
                    = ((bs ! j, cs ! j), ss ! (j + 1))"
  shows "i \<le> n \<Longrightarrow>
         tuple_load_elements (drop i this) src i convert (ss ! i)
           = ((drop i bs, map (\<lambda>(e, c). (fst e, c)) (zip (drop i this) (drop i cs))), ss ! n)"
proof (induction "n - i" arbitrary: i)
  case 0
  then have "i = n" by simp
  then show ?case using lt lbs lcs by simp
next
  case (Suc d)
  then have i: "i < n" by simp
  obtain item s0 where g: "PyTuple_GetItem src i (ss ! i) = (item, s0)"
    and l: "fst (this ! i) (snd (this ! i)) item convert s0 = ((bs ! i, cs ! i), ss ! (i + 1))"
    using trace i by blast
  have d: "d = n - (i + 1)" using Suc.hyps(2) by simp
  have ih: "tuple_load_elements (drop (i + 1) this) src (i + 1) convert (ss ! (i + 1))
      = ((drop (i + 1) bs,
          map (\<lambda>(e, c). (fst e, c)) (zip (drop (i + 1) this) (drop (i + 1) cs))), ss ! n)"
    using Suc.hyps(1)[OF d] i by simp
  obtain ld c0 where e: "this ! i = (ld, c0)" by (cases "this ! i")
  have dt: "drop i this = (ld, c0) # drop (i + 1) this"
    using Cons_nth_drop_Suc[of i this] i lt e by simp
  have db: "drop i bs = bs ! i # drop (i + 1) bs" using i lbs by (simp add: Cons_nth_drop_Suc)
  have dc: "drop i cs = cs ! i # drop (i + 1) cs" using i lcs by (simp add: Cons_nth_drop_Suc)
  show ?case
    unfolding dt db dc using g l ih e by simp
qed

text \<open>
  C10. A value that is not a tuple, or a tuple of another length than the caster's arity,
  makes \<^verbatim>\<open>load\<close> return false with caster and state unchanged: no element is attempted.
  For a tuple of the exact arity, let the element load of every position \<open>j\<close> be run in
  turn, on the item \<^verbatim>\<open>PyTuple_GetItem\<close> gives in the state \<open>ss ! j\<close>, returning \<open>bs ! j\<close>,
  whether true or false, and leaving the element caster \<open>cs ! j\<close> and the state
  \<open>ss ! (j + 1)\<close>. Then \<^verbatim>\<open>load\<close> ends in the state after the last position, every element
  caster is the one its own load left, and \<^verbatim>\<open>load\<close> returns true if and only if every
  \<open>bs ! j\<close> is true: a failure at one position does not keep the later positions from
  being loaded.
\<close>

theorem tuple_load_exhaustive:
  "(\<not> PyTuple_Check s (Some r') \<longrightarrow>
      tuple_load this (Some r') convert s = ((False, this), s)) \<and>
   (ob_val (objs s r) = PyTuple items \<and> length items \<noteq> length this \<longrightarrow>
      tuple_load this (Some r) convert s = ((False, this), s)) \<and>
   (ob_val (objs s r) = PyTuple items \<and> length items = length this \<and>
    length bs = length this \<and> length cs = length this \<and> length ss = length this + 1 \<and>
    ss ! 0 = s \<and>
    (\<forall>j<length this. \<exists>item s0.
       PyTuple_GetItem (Some r) j (ss ! j) = (item, s0) \<and>
       fst (this ! j) (snd (this ! j)) item convert s0 = ((bs ! j, cs ! j), ss ! (j + 1)))
    \<longrightarrow>
      tuple_load this (Some r) convert s =
        ((list_all (\<lambda>b. b) bs, map (\<lambda>(e, c). (fst e, c)) (zip this cs)), ss ! length this) \<and>
      (fst (fst (tuple_load this (Some r) convert s)) \<longleftrightarrow> (\<forall>j<length this. bs ! j)))"
proof (intro conjI impI)
  assume "\<not> PyTuple_Check s (Some r')"
  then show "tuple_load this (Some r') convert s = ((False, this), s)"
    by (simp add: tuple_load_def)
next
  assume "ob_val (objs s r) = PyTuple items \<and> length items \<noteq> length this"
  then show "tuple_load this (Some r) convert s = ((False, this), s)"
    by (simp add: tuple_load_def PyTuple_Check_def PyTuple_Size_def)
next
  assume a: "ob_val (objs s r) = PyTuple items \<and> length items = length this \<and>
    length bs = length this \<and> length cs = length this \<and> length ss = length this + 1 \<and>
    ss ! 0 = s \<and>
    (\<forall>j<length this. \<exists>item s0.
       PyTuple_GetItem (Some r) j (ss ! j) = (item, s0) \<and>
       fst (this ! j) (snd (this ! j)) item convert s0 = ((bs ! j, cs ! j), ss ! (j + 1)))"
  have "tuple_load_elements (drop 0 this) (Some r) 0 convert (ss ! 0)
           = ((drop 0 bs, map (\<lambda>(e, c). (fst e, c)) (zip (drop 0 this) (drop 0 cs))),
              ss ! length this)"
    using a by (intro tuple_load_elements_trace) auto
  then have e: "tuple_load_elements this (Some r) 0 convert s
           = ((bs, map (\<lambda>(e, c). (fst e, c)) (zip this cs)), ss ! length this)"
    using a by simp
  show l: "tuple_load this (Some r) convert s =
        ((list_all (\<lambda>b. b) bs, map (\<lambda>(e, c). (fst e, c)) (zip this cs)), ss ! length this)"
    using a e by (simp add: tuple_load_def PyTuple_Check_def PyTuple_Size_def)
  show "fst (fst (tuple_load this (Some r) convert s)) \<longleftrightarrow> (\<forall>j<length this. bs ! j)"
    using a by (simp add: l list_all_length)
qed

theorem tuple_load_exhaustive_witness:
  "ob_val (objs ex_state 6) = PyTuple [Some 3, Some 4] \<and>
   \<not> PyTuple_Check ex_state (Some 5) \<and>
   length ex_pair_caster = 2 \<and> length ex_single_caster = 1 \<and>
   PyTuple_GetItem (Some 6) 0 ([ex_state, ex_state, ex_state] ! 0) = (Some 3, ex_state) \<and>
   fst (ex_pair_caster ! 0) (snd (ex_pair_caster ! 0)) (Some 3) True ex_state
     = (([False, True] ! 0, [- 1, 3] ! 0), [ex_state, ex_state, ex_state] ! (0 + 1)) \<and>
   PyTuple_GetItem (Some 6) 1 ([ex_state, ex_state, ex_state] ! 1) = (Some 4, ex_state) \<and>
   fst (ex_pair_caster ! 1) (snd (ex_pair_caster ! 1)) (Some 4) True ex_state
     = (([False, True] ! 1, [- 1, 3] ! 1), [ex_state, ex_state, ex_state] ! (1 + 1)) \<and>
   tuple_load ex_pair_caster (Some 6) True ex_state
     = ((False, [(int32_load, - 1), (int32_load, 3)]), ex_state) \<and>
   tuple_load ex_single_caster (Some 6) True ex_state = ((False, ex_single_caster), ex_state) \<and>
   tuple_load ex_pair_caster (Some 5) True ex_state = ((False, ex_pair_caster), ex_state)"
proof -
  have h: "ob_val (objs ex_state 6) = PyTuple [Some 3, Some 4]" "\<not> PyTuple_Check ex_state (Some 5)"
    by (simp_all add: ex_defs PyTuple_Check_def)
  have len: "length ex_pair_caster = 2" "length ex_single_caster = 1"
    by (simp_all add: ex_pair_caster_def ex_single_caster_def)
  have tr: "\<forall>j<length ex_pair_caster. \<exists>item s0.
       PyTuple_GetItem (Some 6) j ([ex_state, ex_state, ex_state] ! j) = (item, s0) \<and>
       fst (ex_pair_caster ! j) (snd (ex_pair_caster ! j)) item True s0
         = (([False, True] ! j, [- 1, 3] ! j), [ex_state, ex_state, ex_state] ! (j + 1))"
    by (simp add: ex_pair_caster_def less_Suc_eq PyTuple_GetItem_def int32_load_def
        PyLong_AsLong_def PyErr_Occurred_def PyErr_SetString_def PyErr_Clear_def ex_defs Let_def
        int32_of_minus_one)
  note t = tuple_load_exhaustive[where s = ex_state and r = 6 and r' = 5
        and this = ex_pair_caster and convert = True
        and items = "[Some 3, Some 4]" and bs = "[False, True]" and cs = "[- 1, 3]"
        and ss = "[ex_state, ex_state, ex_state]"]
  have pre: "ob_val (objs ex_state 6) = PyTuple [Some 3, Some 4] \<and>
    length [Some 3, Some (4::nat)] = length ex_pair_caster \<and>
    length [False, True] = length ex_pair_caster \<and>
    length [- 1, 3 :: 32 word] = length ex_pair_caster \<and>
    length [ex_state, ex_state, ex_state] = length ex_pair_caster + 1 \<and>
    [ex_state, ex_state, ex_state] ! 0 = ex_state \<and>
    (\<forall>j<length ex_pair_caster. \<exists>item s0.
       PyTuple_GetItem (Some 6) j ([ex_state, ex_state, ex_state] ! j) = (item, s0) \<and>
       fst (ex_pair_caster ! j) (snd (ex_pair_caster ! j)) item True s0
         = (([False, True] ! j, [- 1, 3] ! j), [ex_state, ex_state, ex_state] ! (j + 1)))"
    using h len tr by simp
  have a: "tuple_load ex_pair_caster (Some 6) True ex_state
     = ((False, [(int32_load, - 1), (int32_load, 3)]), ex_state)"
    using t pre by (simp add: ex_pair_caster_def)
  have b: "tuple_load ex_pair_caster (Some 5) True ex_state = ((False, ex_pair_caster), ex_state)"
    using t h(2) by simp
  have c: "tuple_load ex_single_caster (Some 6) True ex_state
             = ((False, ex_single_caster), ex_state)"
    using h len tuple_load_exhaustive[where s = ex_state and r = 6 and r' = 5
        and this = ex_single_caster and convert = True
        and items = "[Some 3, Some 4]" and bs = "[False]" and cs = "[- 1]"
        and ss = "[ex_state, ex_state]"]
    by simp
  have el: "PyTuple_GetItem (Some 6) 0 ([ex_state, ex_state, ex_state] ! 0) = (Some 3, ex_state)"
    "fst (ex_pair_caster ! 0) (snd (ex_pair_caster ! 0)) (Some 3) True ex_state
       = (([False, True] ! 0, [- 1, 3] ! 0), [ex_state, ex_state, ex_state] ! (0 + 1))"
    "PyTuple_GetItem (Some 6) 1 ([ex_state, ex_state, ex_state] ! 1) = (Some 4, ex_state)"
    "fst (ex_pair_caster ! 1) (snd (ex_pair_caster ! 1)) (Some 4) True ex_state
       = (([False, True] ! 1, [- 1, 3] ! 1), [ex_state, ex_state, ex_state] ! (1 + 1))"
    by (simp_all add: ex_pair_caster_def PyTuple_GetItem_def int32_load_def
        PyLong_AsLong_def PyErr_Occurred_def PyErr_SetString_def PyErr_Clear_def ex_defs Let_def
        int32_of_minus_one)
  show ?thesis using h len el a b c by simp
qed

section \<open>The call marshaller\<close>

text \<open>
  When every cast returns and one of them returns null, \<^verbatim>\<open>call\<close> releases every value
  produced, throws \<^verbatim>\<open>cast_error\<close> and invokes nothing.
\<close>

lemma calls_fold_Py_XDECREF: "calls (fold Py_XDECREF rs s) = calls s"
  by (induction rs arbitrary: s) (auto simp: Py_XDECREF_def Py_DECREF_def split: option.splits)

lemma call_releases_on_null:
  assumes "call_cast_args args' s = (Inr rs, s1)" and "None \<in> set rs"
  shows "call callee m_ptr args' s =
           (Inl (cast_error ''handle::call(): unable to convert input arguments to Python objects''),
            fold Py_XDECREF rs s1)"
    and "calls (fold Py_XDECREF rs s1) = calls s1"
  using assms by (auto simp: call_def list_ex_iff calls_fold_Py_XDECREF)

lemma ex_call_null:
  "fst (call ex_callee (Some 10)
          [int32_cast 1, cast_ptr ex_U ex_types (Some 120), int32_cast 3] ex_state)
     = Inl (cast_error ''handle::call(): unable to convert input arguments to Python objects'') \<and>
   calls (snd (call ex_callee (Some 10)
          [int32_cast 1, cast_ptr ex_U ex_types (Some 120), int32_cast 3] ex_state)) = [] \<and>
   objs (snd (call ex_callee (Some 10)
          [int32_cast 1, cast_ptr ex_U ex_types (Some 120), int32_cast 3] ex_state)) 11
     = \<lparr>ob_refcnt = 0, ob_type = PyLong_Type, ob_val = PyLong 1\<rparr>"
  by (simp add: call_def int32_cast_def PyLong_FromLong_def alloc_def cast_ptr_def
      dont_cache_def PyErr_SetString_def Py_XDECREF_def Py_DECREF_def ex_defs)

text \<open>
  A cast that throws leaves \<^verbatim>\<open>call\<close> from inside the initialiser of \<^verbatim>\<open>args\<close>: the release
  loop is not reached, and the state is the one the throwing cast left.
\<close>

lemma call_cast_args_throw:
  "call_cast_args pre s = (Inr rs, s1) \<Longrightarrow> arg automatic None s1 = (Inl e, s2) \<Longrightarrow>
   call_cast_args (pre @ arg # post) s = (Inl e, s2)"
proof (induction pre arbitrary: s rs)
  case Nil
  then show ?case by simp
next
  case (Cons a pre)
  then show ?case by (auto split: prod.splits sum.splits)
qed

lemma call_throw_propagates:
  "call_cast_args pre s = (Inr rs, s1) \<Longrightarrow> arg automatic None s1 = (Inl e, s2) \<Longrightarrow>
   call callee m_ptr (pre @ arg # post) s = (Inl e, s2)"
  by (simp add: call_def call_cast_args_throw)

text \<open>
  C4 does not hold of the code. The second of three arguments is a reference to a value
  of the non-copyable class \<open>''N''\<close> that has no wrapper yet: its cast resolves
  \<^verbatim>\<open>automatic\<close> to \<^verbatim>\<open>copy\<close> and throws. The call fails with that error and the callable is
  not invoked, but the integer object made for the first argument, at address 11, keeps
  its reference.
\<close>

theorem call_leaks_on_throw:
  "fst (call ex_callee (Some 10) [int32_cast 1, cast_ref ex_N ex_types 120, int32_cast 3] ex_state)
     = Inl (cast_error ''return_value_policy = copy, but the object is non-copyable!'') \<and>
   calls (snd (call ex_callee (Some 10)
                 [int32_cast 1, cast_ref ex_N ex_types 120, int32_cast 3] ex_state)) = [] \<and>
   objs (snd (call ex_callee (Some 10)
                [int32_cast 1, cast_ref ex_N ex_types 120, int32_cast 3] ex_state)) 11
     = \<lparr>ob_refcnt = 1, ob_type = PyLong_Type, ob_val = PyLong 1\<rparr>"
  by (simp add: call_def int32_cast_def PyLong_FromLong_def alloc_def cast_ref_def cast_ptr_def
      dont_cache_def PyType_GenericAlloc_def set_instance_def handle_return_value_policy_def
      handle_return_value_policy_noncopyable_def ex_defs)

end
